theory Spec2Isabelle
  imports Complex_Main "HOL-Library.AList" "HOL-Library.List_Lexorder" "HOL-Library.Char_ord"
    "HOL-Library.Product_Lexorder"
begin

section \<open>Python values and errors\<close>

text \<open>
  The module \<^verbatim>\<open>covid19/data.py\<close> is a set of transformations over pandas tables and xarray
  arrays. Every exception the Python code (or a library call it makes) can raise is a value
  of \<open>error\<close>; a function that may raise returns \<open>error + 'a\<close> with \<open>Inl\<close> for the exception.
  The two \<^verbatim>\<open>ValueError\<close>s of \<^verbatim>\<open>cdm_check\<close> carry the set their message prints.
\<close>

datatype error =
    Unsupported_dims "string set"
  | Unsupported_coords "string set"
  | ValueError
  | KeyError
  | TypeError
  | IndexError
  | AttributeError

text \<open>
  A table cell or coordinate value: a missing value (\<^verbatim>\<open>nan\<close>), a number, a string, or a
  \<^verbatim>\<open>datetime64[D]\<close>, which numpy stores as the number of days since 1970-01-01.
\<close>

datatype cell = NaN | Num real | Str string | Date int

fun bind :: "error + 'a \<Rightarrow> ('a \<Rightarrow> error + 'b) \<Rightarrow> error + 'b" where
  "bind (Inl e) f = Inl e"
| "bind (Inr x) f = f x"

fun mapM :: "('a \<Rightarrow> error + 'b) \<Rightarrow> 'a list \<Rightarrow> error + 'b list" where
  "mapM f [] = Inr []"
| "mapM f (x # xs) = bind (f x) (\<lambda>y. bind (mapM f xs) (\<lambda>ys. Inr (y # ys)))"

section \<open>Strings: \<^verbatim>\<open>str(int)\<close>, \<^verbatim>\<open>split\<close>, \<^verbatim>\<open>strip\<close>, \<^verbatim>\<open>int(str)\<close>, \<^verbatim>\<open>join\<close>\<close>

definition digit_char :: "nat \<Rightarrow> char" where
  "digit_char n = ''0123456789'' ! n"

fun str_nat :: "nat \<Rightarrow> string" where
  "str_nat n = (if n < 10 then [digit_char n] else str_nat (n div 10) @ [digit_char (n mod 10)])"

declare str_nat.simps [simp del]

text \<open>\<^verbatim>\<open>str(i)\<close> and \<^verbatim>\<open>f"{i}"\<close> for a Python integer: its decimal digits, \<^verbatim>\<open>-\<close> first when negative.\<close>

definition str_int :: "int \<Rightarrow> string" where
  "str_int i = (if i < 0 then CHR ''-'' # str_nat (nat (- i)) else str_nat (nat i))"

text \<open>\<^verbatim>\<open>"%02d" % i\<close> and \<^verbatim>\<open>"{:02d}".format(i)\<close>: at least two characters, padded with a zero.\<close>

definition fmt_02d :: "int \<Rightarrow> string" where
  "fmt_02d i = (if 0 \<le> i \<and> i < 10 then CHR ''0'' # str_int i else str_int i)"

text \<open>
  Strings are lists of bytes. The whitespace that \<^verbatim>\<open>str.strip()\<close> and \<^verbatim>\<open>int()\<close> remove, within
  ASCII: tab, line feed, vertical tab, form feed, carriage return, the four separators
  0x1C to 0x1F, and space.
\<close>

definition is_space :: "char \<Rightarrow> bool" where
  "is_space c \<longleftrightarrow>
     c \<in> set [CHR 0x09, CHR 0x0A, CHR 0x0B, CHR 0x0C, CHR 0x0D,
               CHR 0x1C, CHR 0x1D, CHR 0x1E, CHR 0x1F, CHR 0x20]"

definition strip :: "string \<Rightarrow> string" where
  "strip s = rev (dropWhile is_space (rev (dropWhile is_space s)))"

definition is_digit :: "char \<Rightarrow> bool" where
  "is_digit c \<longleftrightarrow> c \<in> set ''0123456789''"

definition digit_val :: "char \<Rightarrow> int" where
  "digit_val c = int (of_char c) - 48"

text \<open>\<^verbatim>\<open>s.split(c)\<close> for a separator of one character: never the empty list.\<close>

fun split_on :: "char \<Rightarrow> string \<Rightarrow> string list" where
  "split_on c [] = [[]]"
| "split_on c (x # xs) =
     (if x = c then [] # split_on c xs
      else (case split_on c xs of w # ws \<Rightarrow> (x # w) # ws | [] \<Rightarrow> [[x]]))"

text \<open>
  The digits of an integer literal as \<^verbatim>\<open>int()\<close> reads them: at least one digit, and single
  underscores between digits only.
\<close>

fun valid_digits :: "string \<Rightarrow> bool" where
  "valid_digits [] = False"
| "valid_digits [c] = is_digit c"
| "valid_digits (c # d # cs) =
     (is_digit c \<and> (if d = CHR ''_'' then valid_digits cs else valid_digits (d # cs)))"

definition digits_value :: "string \<Rightarrow> error + int" where
  "digits_value ds =
     (if valid_digits ds
      then Inr (foldl (\<lambda>a c. 10 * a + digit_val c) 0 (filter (\<lambda>c. c \<noteq> CHR ''_'') ds))
      else Inl ValueError)"

text \<open>
  \<^verbatim>\<open>int(s)\<close> for a string, base 10: surrounding whitespace is dropped, one sign is allowed,
  anything else raises \<^verbatim>\<open>ValueError\<close>.
\<close>

definition py_int :: "string \<Rightarrow> error + int" where
  "py_int s =
     (case strip s of
        [] \<Rightarrow> Inl ValueError
      | c # cs \<Rightarrow>
          if c = CHR ''-'' then bind (digits_value cs) (\<lambda>n. Inr (- n))
          else if c = CHR ''+'' then digits_value cs
          else digits_value (c # cs))"

text \<open>\<^verbatim>\<open>sep.join(xs)\<close>.\<close>

fun py_join :: "string \<Rightarrow> string list \<Rightarrow> string" where
  "py_join sep [] = []"
| "py_join sep [x] = x"
| "py_join sep (x # y # ys) = x @ sep @ py_join sep (y # ys)"

section \<open>Calendar dates\<close>

definition is_leapyear :: "int \<Rightarrow> bool" where
  "is_leapyear y = (y mod 4 = 0 \<and> (y mod 400 = 0 \<or> y mod 100 \<noteq> 0))"

definition days_per_month :: "int \<Rightarrow> int list" where
  "days_per_month y =
     [31, if is_leapyear y then 29 else 28, 31, 30, 31, 30, 31, 31, 30, 31, 30, 31]"

text \<open>
  The value numpy stores for the calendar date \<open>y\<close>-\<open>m\<close>-\<open>d\<close> in unit \<^verbatim>\<open>D\<close>: the days from
  1970-01-01 to it (proleptic Gregorian calendar).
\<close>

definition leap_years_before :: "int \<Rightarrow> int" where
  "leap_years_before y = (y - 1) div 4 - (y - 1) div 100 + (y - 1) div 400"

definition days_from_civil :: "int \<Rightarrow> int \<Rightarrow> int \<Rightarrow> int" where
  "days_from_civil y m d =
     365 * (y - 1970) + (leap_years_before y - leap_years_before 1970)
       + sum_list (take (nat (m - 1)) (days_per_month y)) + (d - 1)"

text \<open>
  \<^verbatim>\<open>np.datetime64(s)\<close> and \<^verbatim>\<open>np.array([s, ...], "datetime64")\<close> on a date string, as numpy's
  ISO 8601 parser reads it: the digits of the year up to \<^verbatim>\<open>-\<close>, two digits of month,
  \<^verbatim>\<open>-\<close>, two digits of day, and the end of the string; month and day must exist in the
  calendar. The callers below build strings of the shape \<^verbatim>\<open>20..-..-..\<close> from integers
  only, so numpy's other inputs (a sign, \<^verbatim>\<open>NaT\<close>, a year or a month alone, a time of day)
  do not occur; here they raise like every other malformed string.
\<close>

definition two_digits :: "string \<Rightarrow> error + int" where
  "two_digits s =
     (case s of
        [a, b] \<Rightarrow> if is_digit a \<and> is_digit b then Inr (10 * digit_val a + digit_val b)
                  else Inl ValueError
      | _ \<Rightarrow> Inl ValueError)"

definition np_datetime64 :: "string \<Rightarrow> error + int" where
  "np_datetime64 s =
     (case split_on CHR ''-'' s of
        [ys, ms, ds] \<Rightarrow>
          if ys \<noteq> [] \<and> list_all is_digit ys then
            let y = foldl (\<lambda>a c. 10 * a + digit_val c) 0 ys in
            bind (two_digits ms) (\<lambda>m.
              if m < 1 \<or> 12 < m then Inl ValueError
              else bind (two_digits ds) (\<lambda>d.
                if d < 1 \<or> days_per_month y ! nat (m - 1) < d then Inl ValueError
                else Inr (days_from_civil y m d)))
          else Inl ValueError
      | _ \<Rightarrow> Inl ValueError)"

section \<open>Date column headers and location names\<close>

text \<open>
  The date of one column header in \<^verbatim>\<open>reformat\<close>:
  \<^verbatim>\<open>np.datetime64("20{2}-{0:02d}-{1:02d}".format(*map(int, d.split("/"))))\<close>.
  Every field is read as an integer before \<^verbatim>\<open>format\<close> runs; \<^verbatim>\<open>format\<close> raises \<^verbatim>\<open>IndexError\<close>
  when there are fewer than three and ignores the fields after the third.
\<close>

definition reformat_date :: "string \<Rightarrow> error + int" where
  "reformat_date d =
     bind (mapM py_int (split_on CHR ''/'' d)) (\<lambda>ns.
       if length ns < 3 then Inl IndexError
       else np_datetime64 (''20'' @ str_int (ns ! 2) @ ''-'' @ fmt_02d (ns ! 0) @ ''-'' @ fmt_02d (ns ! 1)))"

text \<open>
  The date of one column label in \<^verbatim>\<open>jhu_global_to_xarray\<close> and \<^verbatim>\<open>jhu_usa_to_xarray\<close>:
  \<^verbatim>\<open>"2020-%02d-%02d" % tuple(map(int, d.split("/")[:2]))\<close>, then read by numpy. Only the
  first two fields are read as integers; \<^verbatim>\<open>%\<close> raises \<^verbatim>\<open>TypeError\<close> when there is only one.
\<close>

definition jhu_time_string :: "string \<Rightarrow> error + string" where
  "jhu_time_string d =
     bind (mapM py_int (take 2 (split_on CHR ''/'' d))) (\<lambda>ns.
       if length ns \<noteq> 2 then Inl TypeError
       else Inr (''2020-'' @ fmt_02d (ns ! 0) @ ''-'' @ fmt_02d (ns ! 1)))"

definition jhu_time :: "string \<Rightarrow> error + int" where
  "jhu_time d = bind (jhu_time_string d) np_datetime64"

text \<open>
  The location of one row in \<^verbatim>\<open>reformat\<close>. \<^verbatim>\<open>record[country].strip()\<close> needs a string
  (\<^verbatim>\<open>AttributeError\<close> otherwise); the state is appended when it is a string, whatever is
  left of it after trimming. \<^verbatim>\<open>read_csv\<close> with its default options reads an empty field as
  \<^verbatim>\<open>nan\<close>, never as an empty string.
\<close>

definition reformat_location :: "cell \<Rightarrow> cell \<Rightarrow> error + string" where
  "reformat_location country state =
     (case country of
        Str c \<Rightarrow>
          (let location = strip c in
           case state of
             Str s \<Rightarrow> Inr (location @ '' - '' @ strip s)
           | _ \<Rightarrow> Inr location)
      | _ \<Rightarrow> Inl AttributeError)"

text \<open>
  The location of one row in the array builders:
  \<^verbatim>\<open>" / ".join(i for i in items if i)\<close>. The items that are true are kept (a string is
  true when it is not empty, a number when it is not zero, \<^verbatim>\<open>nan\<close> always); \<^verbatim>\<open>join\<close> raises
  \<^verbatim>\<open>TypeError\<close> on a kept item that is not a string.
\<close>

fun truthy :: "cell \<Rightarrow> bool" where
  "truthy (Str s) = (s \<noteq> [])"
| "truthy (Num n) = (n \<noteq> 0)"
| "truthy NaN = True"
| "truthy (Date t) = True"

fun str_item :: "cell \<Rightarrow> error + string" where
  "str_item (Str s) = Inr s"
| "str_item _ = Inl TypeError"

definition jhu_location :: "cell list \<Rightarrow> error + string" where
  "jhu_location items = bind (mapM str_item (filter truthy items)) (\<lambda>kept. Inr (py_join '' / '' kept))"

section \<open>The wide-table normalizer \<^verbatim>\<open>reformat\<close>\<close>

text \<open>
  The table \<^verbatim>\<open>raw_data\<close> as \<^verbatim>\<open>reformat\<close> reads it through the schema \<^verbatim>\<open>REFORMAT[kind]\<close>:
  \<open>date_columns\<close> are the headers \<^verbatim>\<open>raw_data.columns[date_start:]\<close>, and a row gives
  \<^verbatim>\<open>record[country]\<close>, \<^verbatim>\<open>record[state]\<close>, the \<^verbatim>\<open>Population\<close> field where the table has that
  column, and the counts \<^verbatim>\<open>record[date_start:]\<close>. The count columns of the time series
  and the population are integer columns.
\<close>

record raw_record =
  rec_country :: cell
  rec_state :: cell
  rec_Population :: "int option"
  rec_counts :: "int list"

record raw_table =
  date_columns :: "string list"
  records :: "raw_record list"

text \<open>One value of the dictionary \<^verbatim>\<open>lines\<close>, which becomes one row of the result.\<close>

record line =
  location :: string
  country :: cell
  deaths :: int
  population :: int
  date :: int

text \<open>
  \<^verbatim>\<open>lines\<close> is a dictionary keyed by (location, date); a Python dictionary keeps its keys in
  the order of their first insertion, which is the order of the rows of the result. It is
  an association list with distinct keys here.
\<close>

type_synonym lines = "((string \<times> int) \<times> line) list"

fun foldM :: "('a \<Rightarrow> 's \<Rightarrow> error + 's) \<Rightarrow> 'a list \<Rightarrow> 's \<Rightarrow> error + 's" where
  "foldM f [] s = Inr s"
| "foldM f (x # xs) s = bind (f x s) (foldM f xs)"

text \<open>\<^verbatim>\<open>record.get("Population", 0)\<close>.\<close>

definition get_Population :: "raw_record \<Rightarrow> int" where
  "get_Population record = (case rec_Population record of None \<Rightarrow> 0 | Some p \<Rightarrow> p)"

text \<open>
  The body of the inner loop, for the row \<open>record\<close> and its \<open>i\<close>-th count \<open>d\<close>:
  \<^verbatim>\<open>setdefault\<close> finds the line of the key or inserts a fresh one, and the two \<^verbatim>\<open>+=\<close> update
  that line in place. \<^verbatim>\<open>dates[i]\<close> raises \<^verbatim>\<open>IndexError\<close> out of range.
\<close>

definition add_count :: "int list \<Rightarrow> raw_record \<Rightarrow> nat \<times> int \<Rightarrow> lines \<Rightarrow> error + lines" where
  "add_count dates record = (\<lambda>(i, d) lines.
     bind (reformat_location (rec_country record) (rec_state record)) (\<lambda>loc.
       if i < length dates then
         let key = (loc, dates ! i);
             line = (case map_of lines key of
                       Some l \<Rightarrow> l
                     | None \<Rightarrow> \<lparr>location = loc, country = rec_country record, deaths = 0,
                                population = 0, date = dates ! i\<rparr>);
             line = line\<lparr>population := population line + get_Population record\<rparr>;
             line = line\<lparr>deaths := deaths line + d\<rparr>
         in Inr (AList.update key line lines)
       else Inl IndexError))"

text \<open>
  \<^verbatim>\<open>reformat\<close>: the dates of the headers, the two nested loops, and the table of the lines.
  \<^verbatim>\<open>set_index("date")\<close> raises \<^verbatim>\<open>KeyError\<close> on the table of no lines, which has no column.
\<close>

definition reformat :: "raw_table \<Rightarrow> error + line list" where
  "reformat raw_data =
     bind (mapM reformat_date (date_columns raw_data)) (\<lambda>dates.
       bind (foldM (\<lambda>record. foldM (add_count dates record) (enumerate 0 (rec_counts record)))
               (records raw_data) [])
         (\<lambda>lines. if lines = [] then Inl KeyError else Inr (map snd lines)))"

text \<open>
  For the statement of what \<^verbatim>\<open>reformat\<close> computes: the contributions of a table are its
  (row, column index, count) triples in the order the loops visit them, and the key of a
  contribution is the (location, date) pair the loop body computes for it.
\<close>

definition contributions :: "raw_table \<Rightarrow> (raw_record \<times> nat \<times> int) list" where
  "contributions raw_data =
     concat (map (\<lambda>record. map (Pair record) (enumerate 0 (rec_counts record))) (records raw_data))"

definition key_of :: "int list \<Rightarrow> raw_record \<times> nat \<times> int \<Rightarrow> (string \<times> int) option" where
  "key_of dates = (\<lambda>(record, i, d).
     case reformat_location (rec_country record) (rec_state record) of
       Inr loc \<Rightarrow> if i < length dates then Some (loc, dates ! i) else None
     | Inl e \<Rightarrow> None)"

definition with_key :: "int list \<Rightarrow> string \<times> int \<Rightarrow> (raw_record \<times> nat \<times> int) list
    \<Rightarrow> (raw_record \<times> nat \<times> int) list" where
  "with_key dates k cs = filter (\<lambda>c. key_of dates c = Some k) cs"

text \<open>What the dictionary holds for a key after the contributions \<open>cs\<close>, and the line that one step writes.\<close>

definition summary :: "int list \<Rightarrow> (raw_record \<times> nat \<times> int) list \<Rightarrow> string \<times> int \<Rightarrow> line option" where
  "summary dates cs k =
     (if with_key dates k cs = [] then None
      else Some \<lparr>location = fst k, country = rec_country (fst (hd (with_key dates k cs))),
                 deaths = sum_list (map (\<lambda>(r, i, d). d) (with_key dates k cs)),
                 population = sum_list (map (\<lambda>(r, i, d). get_Population r) (with_key dates k cs)),
                 date = snd k\<rparr>)"

definition touched :: "lines \<Rightarrow> raw_record \<Rightarrow> string \<Rightarrow> int \<Rightarrow> int \<Rightarrow> line" where
  "touched ls r loc t d =
     (case map_of ls (loc, t) of
        Some l \<Rightarrow> l\<lparr>population := population l + get_Population r, deaths := deaths l + d\<rparr>
      | None \<Rightarrow> \<lparr>location = loc, country = rec_country r, deaths = d,
                   population = get_Population r, date = t\<rparr>)"

section \<open>The canonical data model and its validator\<close>

text \<open>
  An xarray \<^verbatim>\<open>DataArray\<close>: the dimensions with their sizes, in order; the coordinates,
  each a name, the dimensions it lies along and its values; and the data, one value for
  each tuple of positions along the dimensions, in row-major order.
\<close>

type_synonym variable = "string \<times> string list \<times> cell list"

record data_array =
  dims :: "(string \<times> nat) list"
  coords :: "variable list"
  cells :: "(nat list \<times> cell) list"

definition CDM_DIMS :: "string set" where
  "CDM_DIMS = {''location'', ''time'', ''age_class'', ''dayofyear'', ''month'', ''year''}"

definition CDM_COORDS :: "string set" where
  "CDM_COORDS = CDM_DIMS \<union> {''country'', ''state'', ''region'', ''province'', ''lat'', ''lon''}"

text \<open>
  \<^verbatim>\<open>cdm_check(da)\<close>. A Python set is true when it is not empty. The function reads \<open>da\<close> and
  assigns nothing: its only outcome is to return \<^verbatim>\<open>None\<close> or to raise.
\<close>

definition cdm_check :: "data_array \<Rightarrow> error + unit" where
  "cdm_check da =
     (let dim_names = set (map fst (dims da)) in
      if dim_names - CDM_DIMS \<noteq> {} then Inl (Unsupported_dims (dim_names - CDM_DIMS))
      else
        let coord_names = set (map fst (coords da)) in
        if coord_names - CDM_COORDS \<noteq> {} then Inl (Unsupported_coords (coord_names - CDM_COORDS))
        else Inr ())"

section \<open>The mortality registry: day codes and age classes\<close>

text \<open>The local function \<^verbatim>\<open>ge2dayofyear\<close> of \<^verbatim>\<open>istat_to_pandas\<close>, on Python integers.\<close>

definition ge2dayofyear :: "int \<Rightarrow> int" where
  "ge2dayofyear x =
     (if x < 132 then x - 101
      else if x < 230 then x - 170
      else if x < 400 then x - 241
      else x - 310)"

text \<open>
  The \<^verbatim>\<open>time\<close> column of one row:
  \<^verbatim>\<open>np.datetime64("2020-01-01", "D") + np.timedelta64(1, "D") * daysofyear\<close>, as a day number.
\<close>

definition istat_time :: "int \<Rightarrow> int" where
  "istat_time GE = days_from_civil 2020 1 1 + 1 * ge2dayofyear GE"

text \<open>The local function \<^verbatim>\<open>cl_eta2age\<close>; \<^verbatim>\<open>//\<close> is floor division, as \<open>div\<close> on \<open>int\<close> is.\<close>

definition cl_eta2age :: "int \<Rightarrow> string" where
  "cl_eta2age x =
     (if x \<le> 10 then ''0-49''
      else if x < 19
        then str_int ((x - 1) div 2 * 10) @ ''-'' @ str_int ((x - 1) div 2 * 10 + 9)
      else ''90+'')"

section \<open>Tables and xarray datasets\<close>

text \<open>
  A pandas \<^verbatim>\<open>DataFrame\<close> as \<^verbatim>\<open>read_csv\<close> returns it: its columns in order, each a name and the
  values of its \<open>n_rows\<close> rows, under the default index 0, 1, ...; the names are distinct.
  The functions below use only a few operations of pandas and xarray; each is modelled
  as the library documents it, with the cases in which the library raises.
\<close>

record data_frame =
  n_rows :: nat
  columns :: "(string \<times> cell list) list"

text \<open>
  An xarray \<^verbatim>\<open>Dataset\<close>: dimensions with their sizes, coordinates and data variables. A
  variable's values are in row-major order over its dimensions.
\<close>

record dataset =
  ds_dims :: "(string \<times> nat) list"
  ds_coords :: "variable list"
  data_vars :: "variable list"

text \<open>All tuples of positions of an array of the given shape, in row-major order.\<close>

fun positions :: "nat list \<Rightarrow> nat list list" where
  "positions [] = [[]]"
| "positions (n # ns) = concat (map (\<lambda>i. map ((#) i) (positions ns)) [0..<n])"

text \<open>
  \<^verbatim>\<open>df.to_xarray()\<close> for a table under the default index: one dimension \<^verbatim>\<open>index\<close> with the row
  numbers as its coordinate, and every column a data variable along it. A column that is
  itself named \<^verbatim>\<open>index\<close> takes the place of the row numbers.
\<close>

definition to_xarray :: "data_frame \<Rightarrow> dataset" where
  "to_xarray df =
     \<lparr>ds_dims = [(''index'', n_rows df)],
      ds_coords =
        [(''index'', [''index''],
          (case map_of (columns df) ''index'' of
             Some vs \<Rightarrow> vs
           | None \<Rightarrow> map (\<lambda>i. Num (of_nat i)) [0..<n_rows df]))],
      data_vars = map (\<lambda>(c, vs). (c, [''index''], vs)) (filter (\<lambda>(c, vs). c \<noteq> ''index'') (columns df))\<rparr>"

definition variable_names :: "dataset \<Rightarrow> string list" where
  "variable_names ds = map fst (ds_coords ds) @ map fst (data_vars ds)"

definition new_name :: "(string \<times> string) list \<Rightarrow> string \<Rightarrow> string" where
  "new_name name_dict n = (case map_of name_dict n of Some n' \<Rightarrow> n' | None \<Rightarrow> n)"

definition rename_variable :: "(string \<times> string) list \<Rightarrow> variable \<Rightarrow> variable" where
  "rename_variable name_dict = (\<lambda>(n, ds, vs). (new_name name_dict n, map (new_name name_dict) ds, vs))"

text \<open>
  \<^verbatim>\<open>ds.rename(name_dict)\<close>: \<^verbatim>\<open>ValueError\<close> when a key names no variable and no dimension of
  the dataset, or when two variables would get one name.
\<close>

definition rename :: "(string \<times> string) list \<Rightarrow> dataset \<Rightarrow> error + dataset" where
  "rename name_dict ds =
     (if \<not> set (map fst name_dict) \<subseteq> set (variable_names ds) \<union> set (map fst (ds_dims ds))
        then Inl ValueError
      else if \<not> distinct (map (new_name name_dict) (variable_names ds)) then Inl ValueError
      else Inr \<lparr>ds_dims = map (\<lambda>(d, n). (new_name name_dict d, n)) (ds_dims ds),
                ds_coords = map (rename_variable name_dict) (ds_coords ds),
                data_vars = map (rename_variable name_dict) (data_vars ds)\<rparr>)"

text \<open>\<^verbatim>\<open>ds.set_coords(names)\<close>: \<^verbatim>\<open>ValueError\<close> when a name is no variable of the dataset.\<close>

definition set_coords :: "string list \<Rightarrow> dataset \<Rightarrow> error + dataset" where
  "set_coords names ds =
     (if \<not> set names \<subseteq> set (variable_names ds) then Inl ValueError
      else Inr (ds\<lparr>ds_coords := ds_coords ds @ filter (\<lambda>v. fst v \<in> set names) (data_vars ds),
                   data_vars := filter (\<lambda>v. fst v \<notin> set names) (data_vars ds)\<rparr>))"

text \<open>\<^verbatim>\<open>ds.drop(names)\<close> on a dataset: \<^verbatim>\<open>ValueError\<close> when a name is no variable of it.\<close>

definition drop_vars :: "string list \<Rightarrow> dataset \<Rightarrow> error + dataset" where
  "drop_vars names ds =
     (if \<not> set names \<subseteq> set (variable_names ds) then Inl ValueError
      else Inr (ds\<lparr>ds_coords := filter (\<lambda>v. fst v \<notin> set names) (ds_coords ds),
                   data_vars := filter (\<lambda>v. fst v \<notin> set names) (data_vars ds)\<rparr>))"

text \<open>
  \<^verbatim>\<open>ds.to_array(d)\<close>: the data variables are stacked along a new first dimension \<open>d\<close>,
  whose coordinate holds their names; stacking no variable raises \<^verbatim>\<open>ValueError\<close>. In the
  datasets of this module every data variable lies along all the dimensions of its
  dataset.
\<close>

definition to_array :: "string \<Rightarrow> dataset \<Rightarrow> error + data_array" where
  "to_array d ds =
     (if data_vars ds = [] then Inl ValueError
      else Inr \<lparr>dims = (d, length (data_vars ds)) # ds_dims ds,
                coords = AList.update d ([d], map (\<lambda>v. Str (fst v)) (data_vars ds)) (ds_coords ds),
                cells = concat (map (\<lambda>(j, (n, ds', vs)).
                                  map (\<lambda>(p, v). (j # p, v)) (zip (positions (map snd (ds_dims ds))) vs))
                          (enumerate 0 (data_vars ds)))\<rparr>)"

text \<open>\<^verbatim>\<open>da.name.values\<close> and \<^verbatim>\<open>da.coords[name]\<close>: the values of a coordinate.\<close>

definition coord_values :: "data_array \<Rightarrow> string \<Rightarrow> error + cell list" where
  "coord_values da name =
     (case map_of (coords da) name of Some (ds, vs) \<Rightarrow> Inr vs | None \<Rightarrow> Inl AttributeError)"

text \<open>
  \<^verbatim>\<open>da.assign_coords({name: (d, values), ...})\<close>: each new coordinate lies along the
  dimension \<open>d\<close>, which must exist and have as many entries as there are values
  (\<^verbatim>\<open>ValueError\<close> otherwise).
\<close>

definition assign_coord :: "string \<times> string \<times> cell list \<Rightarrow> data_array \<Rightarrow> error + data_array" where
  "assign_coord = (\<lambda>(name, d, vs) da.
     if map_of (dims da) d = Some (length vs)
     then Inr (da\<lparr>coords := AList.update name ([d], vs) (coords da)\<rparr>)
     else Inl ValueError)"

definition assign_coords :: "(string \<times> string \<times> cell list) list \<Rightarrow> data_array \<Rightarrow> error + data_array" where
  "assign_coords new da = foldM assign_coord new da"

text \<open>
  \<^verbatim>\<open>da.swap_dims({old: new, ...})\<close>: \<open>old\<close> must be a dimension and \<open>new\<close> a coordinate along
  exactly that dimension (\<^verbatim>\<open>ValueError\<close> otherwise); the dimension takes the name \<open>new\<close>.
\<close>

definition swap_dims :: "(string \<times> string) list \<Rightarrow> data_array \<Rightarrow> error + data_array" where
  "swap_dims dims_dict da =
     (if list_all (\<lambda>(k, v). k \<in> set (map fst (dims da))
                          \<and> map_option fst (map_of (coords da) v) = Some [k]) dims_dict
      then Inr (da\<lparr>dims := map (\<lambda>(d, n). (new_name dims_dict d, n)) (dims da),
                   coords := map (\<lambda>(c, ds, vs). (c, map (new_name dims_dict) ds, vs)) (coords da)\<rparr>)
      else Inl ValueError)"

text \<open>\<^verbatim>\<open>da.drop(names)\<close> on an array: \<^verbatim>\<open>ValueError\<close> when a name is no coordinate of it.\<close>

definition drop_da :: "string list \<Rightarrow> data_array \<Rightarrow> error + data_array" where
  "drop_da names da =
     (if \<not> set names \<subseteq> set (map fst (coords da)) then Inl ValueError
      else Inr (da\<lparr>coords := filter (\<lambda>v. fst v \<notin> set names) (coords da)\<rparr>))"

section \<open>The array builders \<^verbatim>\<open>jhu_global_to_xarray\<close> and \<^verbatim>\<open>jhu_usa_to_xarray\<close>\<close>

text \<open>A label of the \<^verbatim>\<open>date\<close> coordinate must be a string to have \<^verbatim>\<open>split\<close>.\<close>

definition label_string :: "cell \<Rightarrow> error + string" where
  "label_string c = (case c of Str s \<Rightarrow> Inr s | _ \<Rightarrow> Inl AttributeError)"

text \<open>\<^verbatim>\<open>zip(xs, ys, ...)\<close>: the tuples of the values at one position, up to the shortest list.\<close>

fun py_zip :: "cell list list \<Rightarrow> cell list list" where
  "py_zip [] = []"
| "py_zip [xs] = map (\<lambda>x. [x]) xs"
| "py_zip (xs # xss) = map (\<lambda>(x, r). x # r) (zip xs (py_zip xss))"

text \<open>
  \<^verbatim>\<open>jhu_global_to_xarray\<close>, statement by statement; \<open>df\<close> is the table that
  \<^verbatim>\<open>read_csv(path, keep_default_na=False)\<close> returns. The list \<^verbatim>\<open>time\<close> of strings is built
  first, then \<^verbatim>\<open>location\<close>, and numpy reads the strings as dates when \<^verbatim>\<open>assign_coords\<close> is
  called.
\<close>

definition jhu_global_to_xarray :: "data_frame \<Rightarrow> error + data_array" where
  "jhu_global_to_xarray df =
     bind (rename [(''Country/Region'', ''country''), (''Province/State'', ''state''),
                   (''Lat'', ''lat''), (''Long'', ''lon'')] (to_xarray df)) (\<lambda>ds.
     bind (set_coords [''country'', ''state'', ''lat'', ''lon''] ds) (\<lambda>ds.
     bind (to_array ''date'' ds) (\<lambda>da.
     bind (coord_values da ''date'') (\<lambda>date_values.
     bind (mapM (\<lambda>d. bind (label_string d) jhu_time_string) date_values) (\<lambda>time.
     bind (coord_values da ''country'') (\<lambda>country_values.
     bind (coord_values da ''state'') (\<lambda>state_values.
     bind (mapM jhu_location (py_zip [country_values, state_values])) (\<lambda>location.
     bind (mapM np_datetime64 time) (\<lambda>time.
     bind (assign_coords [(''time'', ''date'', map Date time),
                          (''location'', ''index'', map Str location)] da) (\<lambda>da.
     bind (swap_dims [(''date'', ''time''), (''index'', ''location'')] da) (\<lambda>da.
     drop_da [''index'', ''date'', ''state''] da)))))))))))"

text \<open>\<^verbatim>\<open>jhu_usa_to_xarray\<close>, likewise.\<close>

definition jhu_usa_to_xarray :: "data_frame \<Rightarrow> error + data_array" where
  "jhu_usa_to_xarray df =
     bind (rename [(''Country_Region'', ''country''), (''Province_State'', ''state''),
                   (''Admin2'', ''county''), (''Lat'', ''lat''), (''Long_'', ''lon''),
                   (''Population'', ''population'')] (to_xarray df)) (\<lambda>ds.
     bind (set_coords [''country'', ''state'', ''county'', ''lat'', ''lon'', ''population''] ds) (\<lambda>ds.
     bind (drop_vars [''UID'', ''iso2'', ''iso3'', ''code3'', ''FIPS'', ''Combined_Key''] ds) (\<lambda>ds.
     bind (to_array ''date'' ds) (\<lambda>da.
     bind (coord_values da ''date'') (\<lambda>date_values.
     bind (mapM (\<lambda>d. bind (label_string d) jhu_time_string) date_values) (\<lambda>time.
     bind (coord_values da ''country'') (\<lambda>country_values.
     bind (coord_values da ''state'') (\<lambda>state_values.
     bind (coord_values da ''county'') (\<lambda>county_values.
     bind (mapM jhu_location (py_zip [country_values, state_values, county_values])) (\<lambda>location.
     bind (mapM np_datetime64 time) (\<lambda>time.
     bind (assign_coords [(''time'', ''date'', map Date time),
                          (''location'', ''index'', map Str location)] da) (\<lambda>da.
     bind (swap_dims [(''date'', ''time''), (''index'', ''location'')] da) (\<lambda>da.
     drop_da [''index'', ''date'', ''county''] da)))))))))))))"

section \<open>The mortality registry normalizer \<^verbatim>\<open>istat_to_xarray\<close>\<close>

text \<open>
  One row of the registry file as \<^verbatim>\<open>read_csv(path, encoding="8859", na_values=9999)\<close>
  returns it, with the columns the module reads. The six columns of totals are float
  columns: a number, or \<^verbatim>\<open>nan\<close> (\<open>None\<close>) where the file has 9999 or nothing.
\<close>

record istat_record =
  GE :: int
  CL_ETA :: int
  NOME_COMUNE :: string
  NOME_REGIONE :: string
  NOME_PROVINCIA :: string
  TOTALE_15 :: "real option"
  TOTALE_16 :: "real option"
  TOTALE_17 :: "real option"
  TOTALE_18 :: "real option"
  TOTALE_19 :: "real option"
  TOTALE_20 :: "real option"

text \<open>The same row with the two columns that \<^verbatim>\<open>istat_to_pandas\<close> adds.\<close>

record istat_row = istat_record +
  time :: int
  age_class :: string

definition add_columns :: "istat_record \<Rightarrow> istat_row" where
  "add_columns r =
     \<lparr>GE = GE r, CL_ETA = CL_ETA r, NOME_COMUNE = NOME_COMUNE r, NOME_REGIONE = NOME_REGIONE r,
      NOME_PROVINCIA = NOME_PROVINCIA r, TOTALE_15 = TOTALE_15 r, TOTALE_16 = TOTALE_16 r,
      TOTALE_17 = TOTALE_17 r, TOTALE_18 = TOTALE_18 r, TOTALE_19 = TOTALE_19 r,
      TOTALE_20 = TOTALE_20 r, time = istat_time (GE r), age_class = cl_eta2age (CL_ETA r)\<rparr>"

definition isfinite :: "real option \<Rightarrow> bool" where
  "isfinite x = (x \<noteq> None)"

text \<open>\<^verbatim>\<open>istat_to_pandas(path, drop)\<close>; \<open>istat\<close> is the table read from \<^verbatim>\<open>path\<close>.\<close>

definition istat_to_pandas :: "istat_record list \<Rightarrow> bool \<Rightarrow> istat_row list" where
  "istat_to_pandas istat drop_rows =
     (let istat = map add_columns istat in
      if drop_rows then filter (\<lambda>r. isfinite (TOTALE_20 r)) istat else istat)"

definition group_key :: "istat_row \<Rightarrow> int \<times> string \<times> string" where
  "group_key r = (time r, age_class r, NOME_COMUNE r)"

definition totals :: "(string \<times> (istat_row \<Rightarrow> real option)) list" where
  "totals = [(''2015'', TOTALE_15), (''2016'', TOTALE_16), (''2017'', TOTALE_17),
             (''2018'', TOTALE_18), (''2019'', TOTALE_19), (''2020'', TOTALE_20)]"

text \<open>The sum of a column over the rows of one group; pandas skips \<^verbatim>\<open>nan\<close> in a group sum.\<close>

definition group_sum :: "(istat_row \<Rightarrow> real option) \<Rightarrow> istat_row list \<Rightarrow> cell" where
  "group_sum col rows = Num (sum_list (map (\<lambda>r. case col r of None \<Rightarrow> 0 | Some x \<Rightarrow> x) rows))"

text \<open>
  \<^verbatim>\<open>istat.groupby(["time", "age_class", "NOME_COMUNE"]).agg(...)\<close>: one row for each key
  that occurs, in the order of the keys, with the six sums.
\<close>

definition groupby_agg :: "istat_row list \<Rightarrow> ((int \<times> string \<times> string) \<times> cell list) list" where
  "groupby_agg istat =
     map (\<lambda>k. (k, map (\<lambda>(name, col). group_sum col (filter (\<lambda>r. group_key r = k) istat)) totals))
       (sort (remdups (map group_key istat)))"

text \<open>
  \<^verbatim>\<open>tmp.to_xarray()\<close> for the grouped table, whose index has the three levels of the key:
  each level becomes a dimension, with the sorted values of the level as coordinate, and
  each column a data variable over the whole product of the levels. A combination of
  level values that is no row of the table gets \<^verbatim>\<open>nan\<close>.
\<close>

definition levels_to_xarray :: "((int \<times> string \<times> string) \<times> cell list) list \<Rightarrow> dataset" where
  "levels_to_xarray tmp =
     (let times = sort (remdups (map (\<lambda>((t, a, l), vs). t) tmp));
          ages = sort (remdups (map (\<lambda>((t, a, l), vs). a) tmp));
          comuni = sort (remdups (map (\<lambda>((t, a, l), vs). l) tmp));
          shape = [length times, length ages, length comuni]
      in \<lparr>ds_dims = [(''time'', length times), (''age_class'', length ages),
                      (''NOME_COMUNE'', length comuni)],
          ds_coords = [(''time'', [''time''], map Date times),
                       (''age_class'', [''age_class''], map Str ages),
                       (''NOME_COMUNE'', [''NOME_COMUNE''], map Str comuni)],
          data_vars =
            map (\<lambda>(j, (name, col)).
                   (name, [''time'', ''age_class'', ''NOME_COMUNE''],
                    map (\<lambda>p. case map_of tmp (times ! (p ! 0), ages ! (p ! 1), comuni ! (p ! 2)) of
                                Some vs \<Rightarrow> vs ! j
                              | None \<Rightarrow> NaN)
                      (positions shape)))
              (enumerate 0 totals)\<rparr>)"

text \<open>\<^verbatim>\<open>ds.fillna(x)\<close>: every \<^verbatim>\<open>nan\<close> of a data variable becomes \<open>x\<close>.\<close>

definition fill0 :: "cell \<Rightarrow> cell" where
  "fill0 v = (if v = NaN then Num 0 else v)"

definition fillna0 :: "dataset \<Rightarrow> dataset" where
  "fillna0 ds = ds\<lparr>data_vars := map (\<lambda>(n, d, vs). (n, d, map fill0 vs)) (data_vars ds)\<rparr>"

text \<open>
  \<^verbatim>\<open>istat.groupby(["NOME_COMUNE"])[col].first()\<close>: for each municipality, in sorted order,
  the value of the column in its first row.
\<close>

definition first_of :: "(istat_row \<Rightarrow> string) \<Rightarrow> istat_row list \<Rightarrow> cell list" where
  "first_of col istat =
     map (\<lambda>l. Str (col (hd (filter (\<lambda>r. NOME_COMUNE r = l) istat))))
       (sort (remdups (map NOME_COMUNE istat)))"

text \<open>\<^verbatim>\<open>.astype(int)\<close> on one label.\<close>

definition astype_int :: "cell \<Rightarrow> error + cell" where
  "astype_int c =
     (case c of
        Str s \<Rightarrow> bind (py_int s) (\<lambda>n. Inr (Num (of_int n)))
      | Num x \<Rightarrow> Inr (Num x)
      | _ \<Rightarrow> Inl TypeError)"

text \<open>\<^verbatim>\<open>istat_to_xarray(path, drop=...)\<close>: the table and the array.\<close>

definition istat_to_xarray :: "istat_record list \<Rightarrow> bool \<Rightarrow> error + istat_row list \<times> data_array" where
  "istat_to_xarray path drop_rows =
     (let istat = istat_to_pandas path drop_rows;
          tmp = groupby_agg istat
      in bind (rename [(''NOME_COMUNE'', ''location'')] (levels_to_xarray tmp)) (\<lambda>data.
         bind (to_array ''year'' (fillna0 data)) (\<lambda>data.
         bind (coord_values data ''year'') (\<lambda>years.
         bind (mapM astype_int years) (\<lambda>years.
         bind (assign_coords [(''region'', ''location'', first_of NOME_REGIONE istat),
                              (''province'', ''location'', first_of NOME_PROVINCIA istat),
                              (''year'', ''year'', years)] data) (\<lambda>data.
         Inr (istat, data)))))))"

text \<open>The label of an array at a position along one of its coordinates.\<close>

definition label :: "data_array \<Rightarrow> string \<Rightarrow> nat \<Rightarrow> error + cell" where
  "label da name i =
     bind (coord_values da name) (\<lambda>vs. if i < length vs then Inr (vs ! i) else Inl IndexError)"

section \<open>The grid-to-point resampler \<^verbatim>\<open>interp_on_observations\<close>\<close>

text \<open>
  \<open>observed\<close> is the mapping from names to coordinates that the function reads: the
  argument itself, or its \<^verbatim>\<open>coords\<close> when it is an array. Its coordinate arrays are
  one-dimensional arrays of float64 where they hold numbers.

  \<^verbatim>\<open>observed[dim].values % 360.0\<close> is computed in binary64 floating point. A finite
  binary64 number is an integer multiple of a power of two: \<open>m * 2 ^ (e - 52)\<close> with
  \<open>\<bar>m\<bar> < 2 ^ 53\<close>, where \<open>e\<close> is its binary exponent, at least -1022. \<open>pow2 e\<close> is
  \<open>2 ^ e\<close> for an integer \<open>e\<close>.
\<close>

definition pow2 :: "int \<Rightarrow> real" where
  "pow2 e = (if 0 \<le> e then 2 ^ nat e else 1 / 2 ^ nat (- e))"

text \<open>
  The binary exponent of a positive number below \<open>2 ^ 1024\<close>: the \<open>e\<close> with
  \<open>2 ^ e \<le> x < 2 ^ (e + 1)\<close>, found by halving or doubling, and -1022 for the
  subnormal numbers below \<open>2 ^ -1022\<close>.
\<close>

fun exponent_up :: "nat \<Rightarrow> real \<Rightarrow> int" where
  "exponent_up 0 x = 0"
| "exponent_up (Suc n) x = (if x < 2 then 0 else exponent_up n (x / 2) + 1)"

fun exponent_down :: "nat \<Rightarrow> real \<Rightarrow> int" where
  "exponent_down 0 x = 0"
| "exponent_down (Suc n) x = (if 1 \<le> x then 0 else exponent_down n (2 * x) - 1)"

definition exponent :: "real \<Rightarrow> int" where
  "exponent x = (if 1 \<le> x then exponent_up 1023 x else exponent_down 1022 x)"

text \<open>The nearest integer, the even one of the two when they are equally near.\<close>

definition round_half_even :: "real \<Rightarrow> int" where
  "round_half_even r =
     (if r - of_int \<lfloor>r\<rfloor> < 1 / 2 then \<lfloor>r\<rfloor>
      else if 1 / 2 < r - of_int \<lfloor>r\<rfloor> then \<lfloor>r\<rfloor> + 1
      else if even \<lfloor>r\<rfloor> then \<lfloor>r\<rfloor> else \<lfloor>r\<rfloor> + 1)"

text \<open>
  The binary64 number nearest to \<open>x\<close> (round to nearest, ties to even), which is the
  result of a floating-point operation whose exact result is \<open>x\<close>, for \<open>x\<close> of
  magnitude below \<open>2 ^ 1024\<close>.
\<close>

definition round_double :: "real \<Rightarrow> real" where
  "round_double x =
     (if x = 0 then 0
      else pow2 (exponent \<bar>x\<bar> - 52) * of_int (round_half_even (x / pow2 (exponent \<bar>x\<bar> - 52))))"

text \<open>The binary64 numbers are the numbers that rounding leaves as they are.\<close>

definition is_double :: "real \<Rightarrow> bool" where
  "is_double x = (round_double x = x)"

text \<open>
  The C function \<^verbatim>\<open>fmod(x, 360.0)\<close>: the remainder of the division truncated towards
  zero, which has the sign of \<open>x\<close>. It is a binary64 number when \<open>x\<close> is one, so it is
  computed without rounding.
\<close>

definition fmod360 :: "real \<Rightarrow> real" where
  "fmod360 x = x - 360 * of_int (if x < 0 then \<lceil>x / 360\<rceil> else \<lfloor>x / 360\<rfloor>)"

text \<open>
  \<^verbatim>\<open>x % 360.0\<close> on a binary64 number, as Python and numpy compute it: \<^verbatim>\<open>fmod(x, 360.0)\<close>,
  and when that is negative the floating-point sum of it and 360.0, which is rounded.
\<close>

definition float_mod360 :: "real \<Rightarrow> real" where
  "float_mod360 x = (if fmod360 x < 0 then round_double (fmod360 x + 360) else fmod360 x)"

text \<open>\<^verbatim>\<open>% 360.0\<close> on one value of an array; \<^verbatim>\<open>nan\<close> stays \<^verbatim>\<open>nan\<close>.\<close>

definition mod360 :: "cell \<Rightarrow> error + cell" where
  "mod360 c =
     (case c of
        Num x \<Rightarrow> Inr (Num (float_mod360 x))
      | NaN \<Rightarrow> Inr NaN
      | _ \<Rightarrow> Inl TypeError)"

text \<open>
  \<^verbatim>\<open>set(gridded.dims) & set(observed)\<close>. The order in which Python visits the set is the
  same in the three places that visit it, and the selection built from it is a
  dictionary, so any order gives the same result; here it is the order of the grid's
  dimensions.
\<close>

definition interp_dims :: "data_array \<Rightarrow> variable list \<Rightarrow> string list" where
  "interp_dims gridded observed = filter (\<lambda>d. d \<in> set (map fst observed)) (map fst (dims gridded))"

text \<open>\<^verbatim>\<open>observed[name].values\<close>.\<close>

definition observed_values :: "variable list \<Rightarrow> string \<Rightarrow> error + cell list" where
  "observed_values observed name =
     (case map_of observed name of Some (ds, vs) \<Rightarrow> Inr vs | None \<Rightarrow> Inl KeyError)"

text \<open>The dictionary \<^verbatim>\<open>coords\<close>.\<close>

definition interp_coords :: "data_array \<Rightarrow> variable list \<Rightarrow> error + (string \<times> cell list) list" where
  "interp_coords gridded observed =
     mapM (\<lambda>d. bind (observed_values observed d) (\<lambda>vs.
             if d = ''lon'' then bind (mapM mod360 vs) (\<lambda>ws. Inr (d, ws)) else Inr (d, vs)))
       (interp_dims gridded observed)"

text \<open>
  The dictionaries \<^verbatim>\<open>selection\<close> of the loop, one for each tuple of \<^verbatim>\<open>zip(*coords.values())\<close>,
  in order.
\<close>

definition selections :: "data_array \<Rightarrow> variable list \<Rightarrow> error + (string \<times> cell) list list" where
  "selections gridded observed =
     bind (interp_coords gridded observed) (\<lambda>coords.
       Inr (map (\<lambda>coord_values. zip (map fst coords) coord_values) (py_zip (map snd coords))))"

text \<open>
  Nearest-value lookup of a label in the coordinate of a dimension, as pandas does it for
  \<^verbatim>\<open>method="nearest"\<close>: labels are numbers or dates (\<^verbatim>\<open>TypeError\<close> otherwise), the
  coordinate must be strictly increasing or strictly decreasing (\<^verbatim>\<open>ValueError\<close>
  otherwise) and not empty (\<^verbatim>\<open>KeyError\<close>); the result is the position of the value at
  the least distance from the label, the larger value when two are equally near.
\<close>

definition label_key :: "cell \<Rightarrow> error + real" where
  "label_key c = (case c of Num x \<Rightarrow> Inr x | Date t \<Rightarrow> Inr (of_int t) | _ \<Rightarrow> Inl TypeError)"

definition nearer :: "real \<Rightarrow> real list \<Rightarrow> nat \<Rightarrow> nat \<Rightarrow> nat" where
  "nearer t ks i j =
     (if \<bar>ks ! j - t\<bar> < \<bar>ks ! i - t\<bar> \<or> (\<bar>ks ! j - t\<bar> = \<bar>ks ! i - t\<bar> \<and> ks ! i < ks ! j) then j else i)"

definition nearest_pos :: "cell list \<Rightarrow> cell \<Rightarrow> error + nat" where
  "nearest_pos index target =
     bind (mapM label_key index) (\<lambda>ks.
     bind (label_key target) (\<lambda>t.
       if ks = [] then Inl KeyError
       else if \<not> (sorted_wrt (<) ks \<or> sorted_wrt (>) ks) then Inl ValueError
       else Inr (foldl (nearer t ks) 0 [1..<length ks])))"

text \<open>
  Selection by position: \<open>chosen\<close> gives a position for some dimensions. Those dimensions
  disappear; every coordinate and the data keep the entries at the chosen positions. The
  coordinate of a chosen dimension is left with its one chosen value and no dimension.
\<close>

definition matches :: "string list \<Rightarrow> (string \<times> nat) list \<Rightarrow> nat list \<Rightarrow> bool" where
  "matches ds chosen p =
     list_all (\<lambda>(d, i). case map_of chosen d of Some k \<Rightarrow> i = k | None \<Rightarrow> True) (zip ds p)"

definition kept :: "string list \<Rightarrow> (string \<times> nat) list \<Rightarrow> nat list \<Rightarrow> nat list" where
  "kept ds chosen p = map snd (filter (\<lambda>(d, i). map_of chosen d = None) (zip ds p))"

definition size_of :: "data_array \<Rightarrow> string \<Rightarrow> nat" where
  "size_of da d = (case map_of (dims da) d of Some n \<Rightarrow> n | None \<Rightarrow> 0)"

definition isel :: "(string \<times> nat) list \<Rightarrow> data_array \<Rightarrow> data_array" where
  "isel chosen da =
     \<lparr>dims = filter (\<lambda>(d, n). map_of chosen d = None) (dims da),
      coords = map (\<lambda>(c, ds, vs).
                 (c, filter (\<lambda>d. map_of chosen d = None) ds,
                  map snd (filter (\<lambda>(p, v). matches ds chosen p)
                             (zip (positions (map (size_of da) ds)) vs))))
               (coords da),
      cells = map (\<lambda>(p, v). (kept (map fst (dims da)) chosen p, v))
                (filter (\<lambda>(p, v). matches (map fst (dims da)) chosen p) (cells da))\<rparr>"

text \<open>
  \<^verbatim>\<open>gridded.sel(**selection, method="nearest")\<close>: each dimension of the selection needs its
  own coordinate in the grid (\<^verbatim>\<open>ValueError\<close> otherwise).
\<close>

definition sel_nearest :: "data_array \<Rightarrow> (string \<times> cell) list \<Rightarrow> error + data_array" where
  "sel_nearest gridded selection =
     bind (mapM (\<lambda>(d, v). case map_of (coords gridded) d of
                             Some (ds, vs) \<Rightarrow>
                               if ds = [d] then bind (nearest_pos vs v) (\<lambda>k. Inr (d, k))
                               else Inl ValueError
                           | None \<Rightarrow> Inl ValueError) selection)
       (\<lambda>chosen. Inr (isel chosen gridded))"

text \<open>
  \<^verbatim>\<open>xr.concat(objs, dim=d)\<close> for arrays of one shape that have no dimension \<open>d\<close>: \<open>d\<close> is the
  new first dimension, with one entry for each array; a coordinate that is the same in
  all the arrays is kept, any other is concatenated along \<open>d\<close>. No array to concatenate
  raises \<^verbatim>\<open>ValueError\<close>. When the arrays do have a dimension \<open>d\<close>, it is a dimension of the
  grid that \<open>observed\<close> does not name, so \<^verbatim>\<open>observed[index]\<close> raises \<^verbatim>\<open>KeyError\<close> right after
  the concatenation: that is the outcome given here.
\<close>

definition concat_da :: "data_array list \<Rightarrow> string \<Rightarrow> error + data_array" where
  "concat_da objs d =
     (case objs of
        [] \<Rightarrow> Inl ValueError
      | first # rest \<Rightarrow>
          if d \<in> set (map fst (dims first)) then Inl KeyError
          else Inr \<lparr>dims = (d, length objs) # dims first,
                    coords = map (\<lambda>(c, ds, vs).
                               if list_all (\<lambda>obj. map_of (coords obj) c = Some (ds, vs)) objs
                               then (c, ds, vs)
                               else (c, d # ds,
                                     concat (map (\<lambda>obj. case map_of (coords obj) c of
                                                          Some (ds', vs') \<Rightarrow> vs'
                                                        | None \<Rightarrow> []) objs)))
                             (coords first),
                    cells = concat (map (\<lambda>(k, obj). map (\<lambda>(p, v). (k # p, v)) (cells obj))
                                     (enumerate 0 objs))\<rparr>)"

text \<open>
  \<^verbatim>\<open>interp_on_observations(gridded, observed, index)\<close>. The last statement gives the new
  axis the values of \<^verbatim>\<open>observed[index]\<close>, which must be one-dimensional and as many as the
  axis has entries.
\<close>

definition interp_on_observations :: "data_array \<Rightarrow> variable list \<Rightarrow> string \<Rightarrow> error + data_array" where
  "interp_on_observations gridded observed index =
     bind (selections gridded observed) (\<lambda>sels.
     bind (mapM (sel_nearest gridded) sels) (\<lambda>interpolated.
     bind (concat_da interpolated index) (\<lambda>data.
       case map_of observed index of
         None \<Rightarrow> Inl KeyError
       | Some (ds, vs) \<Rightarrow>
           if length ds \<noteq> 1 then Inl ValueError
           else assign_coords [(index, index, vs)] data)))"

section \<open>Example inputs\<close>

text \<open>
  A global table of two rows and one date column; a US table of one county and two date
  columns; and two rows of the registry with the same age class, on two days, in two
  municipalities.
\<close>

definition global_example :: data_frame where
  "global_example = \<lparr>n_rows = 2, columns =
     [(''Province/State'', [Str [], Str ''Hubei'']),
      (''Country/Region'', [Str ''Italy'', Str ''China'']),
      (''Lat'', [Num 41, Num 30]), (''Long'', [Num 12, Num 112]),
      (''1/22/20'', [Num 0, Num 17])]\<rparr>"

definition usa_example :: data_frame where
  "usa_example = \<lparr>n_rows = 1, columns =
     [(''UID'', [Num 84001001]), (''iso2'', [Str ''US'']), (''iso3'', [Str ''USA'']),
      (''code3'', [Num 840]), (''FIPS'', [Num 1001]), (''Admin2'', [Str ''Autauga'']),
      (''Province_State'', [Str ''Alabama'']), (''Country_Region'', [Str ''US'']),
      (''Lat'', [Num 32]), (''Long_'', [Num (- 86)]),
      (''Combined_Key'', [Str ''Autauga, Alabama, US'']), (''Population'', [Num 55869]),
      (''1/22/20'', [Num 0]), (''1/23/20'', [Num 1])]\<rparr>"

definition istat_example :: "istat_record list" where
  "istat_example =
     [\<lparr>GE = 101, CL_ETA = 11, NOME_COMUNE = ''Roma'', NOME_REGIONE = ''Lazio'',
       NOME_PROVINCIA = ''Roma'', TOTALE_15 = Some 1, TOTALE_16 = Some 2, TOTALE_17 = None,
       TOTALE_18 = Some 4, TOTALE_19 = Some 5, TOTALE_20 = Some 6\<rparr>,
      \<lparr>GE = 102, CL_ETA = 11, NOME_COMUNE = ''Bari'', NOME_REGIONE = ''Puglia'',
       NOME_PROVINCIA = ''Bari'', TOTALE_15 = Some 10, TOTALE_16 = Some 20, TOTALE_17 = Some 30,
       TOTALE_18 = Some 40, TOTALE_19 = Some 50, TOTALE_20 = Some 60\<rparr>]"

text \<open>
  A grid over two latitudes and the four longitudes 0, 90, 180, 270, whose cell at
  positions (i, j) holds 10 i + j; and two observation points, the second at longitude
  -10.
\<close>

definition grid_example :: data_array where
  "grid_example =
     \<lparr>dims = [(''lat'', 2), (''lon'', 4)],
      coords = [(''lat'', [''lat''], [Num 40, Num 50]),
                (''lon'', [''lon''], [Num 0, Num 90, Num 180, Num 270])],
      cells = [([0, 0], Num 0), ([0, 1], Num 1), ([0, 2], Num 2), ([0, 3], Num 3),
               ([1, 0], Num 10), ([1, 1], Num 11), ([1, 2], Num 12), ([1, 3], Num 13)]\<rparr>"

definition observed_example :: "variable list" where
  "observed_example =
     [(''location'', [''location''], [Str ''Roma'', Str ''Lisboa'']),
      (''lat'', [''location''], [Num 42, Num 39]),
      (''lon'', [''location''], [Num 12, Num (- 10)])]"

text \<open>
  One observation point whose longitude is the negative float64 number \<^verbatim>\<open>-2**-70\<close>, just
  west of the meridian 0.
\<close>

definition tiny_lon_example :: "variable list" where
  "tiny_lon_example =
     [(''location'', [''location''], [Str ''Greenwich'']),
      (''lat'', [''location''], [Num 51]),
      (''lon'', [''location''], [Num (- (1 / 2 ^ 70))])]"

section \<open>Properties of the validator\<close>

text \<open>
  Claim C7. \<^verbatim>\<open>cdm_check\<close> raises the unsupported-dimensions error, carrying exactly the
  dimension names outside \<open>CDM_DIMS\<close>, if and only if the dimension names are not a subset
  of \<open>CDM_DIMS\<close>; otherwise it raises the unsupported-coordinates error, carrying exactly the
  coordinate names outside \<open>CDM_COORDS\<close>, if and only if the coordinate names are not a
  subset of \<open>CDM_COORDS\<close>; otherwise it returns. The function has no other outcome: it
  returns no array and assigns to none, so the array it was given is as it was.
\<close>

theorem cdm_check_outcome:
  "cdm_check da =
     (if \<not> set (map fst (dims da)) \<subseteq> CDM_DIMS
        then Inl (Unsupported_dims (set (map fst (dims da)) - CDM_DIMS))
      else if \<not> set (map fst (coords da)) \<subseteq> CDM_COORDS
        then Inl (Unsupported_coords (set (map fst (coords da)) - CDM_COORDS))
      else Inr ())
   \<and> ((\<exists>S. cdm_check da = Inl (Unsupported_dims S)) \<longleftrightarrow> \<not> set (map fst (dims da)) \<subseteq> CDM_DIMS)
   \<and> ((\<exists>S. cdm_check da = Inl (Unsupported_coords S)) \<longleftrightarrow>
        set (map fst (dims da)) \<subseteq> CDM_DIMS \<and> \<not> set (map fst (coords da)) \<subseteq> CDM_COORDS)
   \<and> (cdm_check da = Inr () \<longleftrightarrow>
        set (map fst (dims da)) \<subseteq> CDM_DIMS \<and> set (map fst (coords da)) \<subseteq> CDM_COORDS)"
  by (auto simp: cdm_check_def Let_def)

text \<open>The three outcomes on concrete arrays: a stray dimension, a stray coordinate, a valid array.\<close>

lemma cdm_check_examples:
  "cdm_check \<lparr>dims = [(''time'', 2), (''index'', 3)], coords = [(''population'', [''index''], [])], cells = []\<rparr>
     = Inl (Unsupported_dims {''index''})"
  "cdm_check \<lparr>dims = [(''time'', 2)], coords = [(''time'', [''time''], []), (''population'', [''time''], [])], cells = []\<rparr>
     = Inl (Unsupported_coords {''population''})"
  "cdm_check \<lparr>dims = [(''time'', 2)], coords = [(''time'', [''time''], []), (''lat'', [''time''], [])], cells = []\<rparr>
     = Inr ()"
  by (auto simp: cdm_check_def CDM_DIMS_def CDM_COORDS_def Let_def)

section \<open>Properties of the registry decoding\<close>

lemma str_nat_digit: "n < 10 \<Longrightarrow> str_nat n = [digit_char n]"
  by (simp add: str_nat.simps)

lemma str_nat_two:
  "10 \<le> n \<Longrightarrow> n < 100 \<Longrightarrow> str_nat n = [digit_char (n div 10), digit_char (n mod 10)]"
  by (subst str_nat.simps) (simp add: str_nat_digit)

lemmas calendar_defs =
  days_from_civil_def leap_years_before_def days_per_month_def is_leapyear_def

lemma jan_1_2020: "days_from_civil 2020 1 1 = 18262"
  by (simp add: calendar_defs)

text \<open>
  Claim C2, as the code has it. The claim adds (d - 1) days to January 1; the code adds d
  days, where d is the piecewise day number of the claim, which counts from 0: code 101
  is January 1 itself. At the branch boundaries: 131 is January 31, 201 February 1, 229
  February 29, 301 March 1, 331 March 31 and 401 April 1 of 2020.
\<close>

theorem istat_time_piecewise:
  "istat_time x =
     days_from_civil 2020 1 1 +
       (if x < 132 then x - 101
        else if x < 230 then x - 170
        else if x < 400 then x - 241
        else x - 310)
   \<and> istat_time 101 = days_from_civil 2020 1 1
   \<and> istat_time 131 = days_from_civil 2020 1 31
   \<and> istat_time 201 = days_from_civil 2020 2 1
   \<and> istat_time 229 = days_from_civil 2020 2 29
   \<and> istat_time 301 = days_from_civil 2020 3 1
   \<and> istat_time 331 = days_from_civil 2020 3 31
   \<and> istat_time 401 = days_from_civil 2020 4 1"
  by (simp add: istat_time_def ge2dayofyear_def calendar_defs)

text \<open>
  Claim C2 as stated fails at code 101: there d = 0, the claim's date is January 1 plus
  (0 - 1) days, which is 2019-12-31, and the code's is 2020-01-01.
\<close>

theorem istat_time_not_minus_one:
  "istat_time 101 \<noteq> days_from_civil 2020 1 1 + ((101 - 101) - 1)
   \<and> istat_time 101 = days_from_civil 2020 1 1
   \<and> days_from_civil 2020 1 1 + ((101 - 101) - 1) = days_from_civil 2019 12 31"
  by (simp add: istat_time_def ge2dayofyear_def calendar_defs)

text \<open>
  Claim C3, as the code has it: code 10 gives "0-49", code 11 gives "50-59" (the claim
  says "0-9"), code 18 gives "80-89" and code 19 gives "90+"; every integer code gives one
  of "0-49", "50-59", "60-69", "70-79", "80-89", "90+", all of them labels of the claim's
  table.
\<close>

theorem cl_eta2age_labels:
  "cl_eta2age 10 = ''0-49'' \<and> cl_eta2age 11 = ''50-59''
   \<and> cl_eta2age 18 = ''80-89'' \<and> cl_eta2age 19 = ''90+''
   \<and> cl_eta2age x \<in> {''0-49'', ''50-59'', ''60-69'', ''70-79'', ''80-89'', ''90+''}
   \<and> cl_eta2age x \<in> {''0-49'', ''0-9'', ''10-19'', ''20-29'', ''30-39'', ''40-49'', ''50-59'',
                      ''60-69'', ''70-79'', ''80-89'', ''90+''}"
proof -
  have point: "cl_eta2age 10 = ''0-49''" "cl_eta2age 11 = ''50-59''"
    "cl_eta2age 18 = ''80-89''" "cl_eta2age 19 = ''90+''"
    by (simp_all add: cl_eta2age_def str_int_def str_nat_two digit_char_def)
  consider "x \<le> 10" | "x = 11" | "x = 12" | "x = 13" | "x = 14" | "x = 15"
    | "x = 16" | "x = 17" | "x = 18" | "19 \<le> x"
    by linarith
  then have "cl_eta2age x \<in> {''0-49'', ''50-59'', ''60-69'', ''70-79'', ''80-89'', ''90+''}"
    by cases (simp_all add: cl_eta2age_def str_int_def str_nat_two digit_char_def)
  with point show ?thesis
    by auto
qed

text \<open>Claim C3 as stated fails at code 11, which the code maps to "50-59", not to "0-9".\<close>

theorem cl_eta2age_11_not_0_9:
  "cl_eta2age 11 \<noteq> ''0-9'' \<and> cl_eta2age 11 = ''50-59''"
  by (simp add: cl_eta2age_def str_int_def str_nat_two digit_char_def)

section \<open>Properties of the date parsers\<close>

lemma bind_Inr_iff: "bind r f = Inr y \<longleftrightarrow> (\<exists>x. r = Inr x \<and> f x = Inr y)"
  by (cases r) auto

lemma mapM_take: "mapM f xs = Inr ys \<Longrightarrow> mapM f (take n xs) = Inr (take n ys)"
proof (induction xs arbitrary: n ys)
  case Nil
  then show ?case by simp
next
  case (Cons x xs)
  from Cons.prems obtain y ys' where fx: "f x = Inr y" and rest: "mapM f xs = Inr ys'" and ys: "ys = y # ys'"
    by (auto simp: bind_Inr_iff)
  show ?case
  proof (cases n)
    case 0
    then show ?thesis by simp
  next
    case (Suc k)
    with Cons.IH[OF rest, of k] fx ys show ?thesis by simp
  qed
qed

lemma split_on_no_sep: "c \<notin> set a \<Longrightarrow> split_on c a = [a]"
  by (induction a) auto

lemma split_on_append: "c \<notin> set a \<Longrightarrow> split_on c (a @ c # rest) = a # split_on c rest"
  by (induction a) auto

lemma is_digit_not_space: "is_digit c \<Longrightarrow> \<not> is_space c"
  by (auto simp: is_digit_def is_space_def)

lemma strip_digits: "list_all is_digit ds \<Longrightarrow> strip ds = ds"
proof (cases ds rule: rev_cases)
  case Nil
  then show ?thesis by (simp add: strip_def)
next
  case (snoc ys y)
  assume all: "list_all is_digit ds"
  with snoc have y: "\<not> is_space y" by (simp add: is_digit_not_space)
  have front: "dropWhile is_space ds = ds"
    using all by (cases ds) (auto simp: is_digit_not_space)
  have "rev (dropWhile is_space (rev ds)) = ds"
    using y snoc by simp
  then show ?thesis
    by (simp add: strip_def front)
qed

lemma valid_digits_all: "ds \<noteq> [] \<Longrightarrow> list_all is_digit ds \<Longrightarrow> valid_digits ds"
proof (induction ds rule: valid_digits.induct)
  case 1
  then show ?case by simp
next
  case (2 c)
  then show ?case by simp
next
  case (3 c d cs)
  then have "d \<noteq> CHR ''_''" by (auto simp: is_digit_def)
  with 3 show ?case by simp
qed

lemma filter_digits: "list_all is_digit ds \<Longrightarrow> filter (\<lambda>c. c \<noteq> CHR ''_'') ds = ds"
  by (induction ds) (auto simp: is_digit_def)

lemma py_int_digits:
  assumes "ds \<noteq> []" "list_all is_digit ds"
  shows "py_int ds = Inr (foldl (\<lambda>a c. 10 * a + digit_val c) 0 ds)"
proof -
  from assms obtain c cs where ds: "ds = c # cs" by (cases ds) auto
  with assms have "is_digit c" by simp
  then have sign: "c \<noteq> CHR ''-''" "c \<noteq> CHR ''+''" by (auto simp: is_digit_def)
  have "digits_value ds = Inr (foldl (\<lambda>a c. 10 * a + digit_val c) 0 ds)"
    using assms by (simp add: digits_value_def valid_digits_all filter_digits)
  moreover have "py_int ds = digits_value ds"
    using sign assms(2) by (simp add: py_int_def strip_digits ds)
  ultimately show ?thesis
    by simp
qed

lemma str_int_20: "str_int 20 = ''20''"
  by (simp add: str_int_def str_nat_two digit_char_def)

lemma date_parsers_agree_fields:
  assumes "mapM py_int (split_on CHR ''/'' h) = Inr (m # d # 20 # rest)"
  shows "reformat_date h = jhu_time h"
proof -
  have "mapM py_int (take 2 (split_on CHR ''/'' h)) = Inr (take 2 (m # d # 20 # rest))"
    using assms by (rule mapM_take)
  then show ?thesis
    using assms by (simp add: reformat_date_def jhu_time_def jhu_time_string_def str_int_20)
qed

lemma digits_no_slash: "list_all is_digit ds \<Longrightarrow> CHR ''/'' \<notin> set ds"
  by (auto simp: list_all_iff is_digit_def)

text \<open>
  Claim C4, as the code has it. The array builders never read the year field: they write
  2020. The two parsers agree on every header M/D/20, where M and D are any non-empty
  digit strings: both return the same date or raise the same error.
\<close>

theorem date_parsers_agree_2020:
  assumes "M \<noteq> []" "list_all is_digit M" "D \<noteq> []" "list_all is_digit D"
  shows "reformat_date (M @ ''/'' @ D @ ''/20'') = jhu_time (M @ ''/'' @ D @ ''/20'')"
proof -
  have split: "split_on CHR ''/'' (M @ ''/'' @ D @ ''/20'') = [M, D, ''20'']"
    using assms by (simp add: split_on_append digits_no_slash)
  have "py_int ''20'' = Inr 20"
    by code_simp
  then have "mapM py_int [M, D, ''20''] =
      Inr (foldl (\<lambda>a c. 10 * a + digit_val c) 0 M # foldl (\<lambda>a c. 10 * a + digit_val c) 0 D # 20 # [])"
    using assms by (simp add: py_int_digits)
  then have "mapM py_int (split_on CHR ''/'' (M @ ''/'' @ D @ ''/20'')) =
      Inr (foldl (\<lambda>a c. 10 * a + digit_val c) 0 M # foldl (\<lambda>a c. 10 * a + digit_val c) 0 D # 20 # [])"
    unfolding split .
  then show ?thesis
    by (rule date_parsers_agree_fields)
qed

text \<open>Both parsers read the header 3/14/20 as 2020-03-14.\<close>

theorem date_parsers_agree_2020_witness:
  "reformat_date ''3/14/20'' = jhu_time ''3/14/20''
   \<and> reformat_date ''3/14/20'' = Inr (days_from_civil 2020 3 14)
   \<and> jhu_time ''3/14/20'' = Inr (days_from_civil 2020 3 14)"
proof -
  have digits: "list_all is_digit ''3''" "list_all is_digit ''14''"
    by (simp_all add: is_digit_def)
  have same: "reformat_date ''3/14/20'' = jhu_time ''3/14/20''"
    using date_parsers_agree_2020 [of "''3''" "''14''"] digits by simp
  have "jhu_time ''3/14/20'' = Inr (days_from_civil 2020 3 14)"
    by code_simp
  with same show ?thesis
    by simp
qed

text \<open>
  Claim C4 as stated fails on the header 3/14/21: \<^verbatim>\<open>reformat\<close> reads it as 2021-03-14, the
  array builders as 2020-03-14.
\<close>

theorem date_parsers_differ_2021:
  "reformat_date ''3/14/21'' \<noteq> jhu_time ''3/14/21''
   \<and> reformat_date ''3/14/21'' = Inr (days_from_civil 2021 3 14)
   \<and> jhu_time ''3/14/21'' = Inr (days_from_civil 2020 3 14)"
proof -
  have r: "reformat_date ''3/14/21'' = Inr 18700"
    by code_simp
  have j: "jhu_time ''3/14/21'' = Inr 18335"
    by code_simp
  have "days_from_civil 2021 3 14 = 18700" "days_from_civil 2020 3 14 = 18335"
    by (simp_all add: calendar_defs)
  with r j show ?thesis
    by simp
qed

section \<open>Properties of the location names\<close>

lemma mapM_str_item_nonempty:
  "mapM str_item (filter truthy (map Str names)) = Inr (filter (\<lambda>f. f \<noteq> []) names)"
  by (induction names) auto

text \<open>
  Claim C5, as the code has it. In \<^verbatim>\<open>reformat\<close> the location is the trimmed country alone
  when the state field is not a string (a missing or empty field of the file is read as
  \<^verbatim>\<open>nan\<close>), and the trimmed country, " - " and the trimmed state whenever the state field
  is a string. In the array builders the location is the " / "-join of exactly the
  non-empty fields, in their order.
\<close>

theorem location_join:
  "reformat_location (Str c) st =
     Inr (case st of Str s \<Rightarrow> strip c @ '' - '' @ strip s | _ \<Rightarrow> strip c)
   \<and> jhu_location (map Str names) = Inr (py_join '' / '' (filter (\<lambda>f. f \<noteq> []) names))
   \<and> reformat_location (Str ''Italy'') NaN = Inr ''Italy''
   \<and> reformat_location (Str ''US'') (Str ''California'') = Inr ''US - California''
   \<and> jhu_location [Str ''US'', Str ''California''] = Inr ''US / California''
   \<and> jhu_location [Str ''Italy'', Str []] = Inr ''Italy''
   \<and> jhu_location [Str ''US'', Str [], Str ''Kent''] = Inr ''US / Kent''"
proof -
  have general: "reformat_location (Str c) st =
      Inr (case st of Str s \<Rightarrow> strip c @ '' - '' @ strip s | _ \<Rightarrow> strip c)"
    by (cases st) (simp_all add: reformat_location_def)
  have joined: "jhu_location (map Str names) = Inr (py_join '' / '' (filter (\<lambda>f. f \<noteq> []) names))"
    by (simp add: jhu_location_def mapM_str_item_nonempty)
  have "reformat_location (Str ''Italy'') NaN = Inr ''Italy''"
    "reformat_location (Str ''US'') (Str ''California'') = Inr ''US - California''"
    by code_simp+
  moreover have "jhu_location [Str ''US'', Str ''California''] = Inr ''US / California''"
    "jhu_location [Str ''Italy'', Str []] = Inr ''Italy''"
    "jhu_location [Str ''US'', Str [], Str ''Kent''] = Inr ''US / Kent''"
    by (simp_all add: jhu_location_def)
  ultimately show ?thesis
    using general joined by simp
qed

text \<open>
  Claim C5 as stated fails in \<^verbatim>\<open>reformat\<close> on a state field that holds only whitespace: it
  is a non-empty string, so the separator is appended, and nothing is left of the state
  after trimming. The location ends with the separator and an empty segment.
\<close>

theorem reformat_location_blank_state:
  "reformat_location (Str ''Italy'') (Str '' '') = Inr (''Italy'' @ '' - '' @ [])
   \<and> '' '' \<noteq> ([] :: string)
   \<and> reformat_location (Str ''Italy'') (Str '' '') = Inr ''Italy - ''"
  by code_simp

section \<open>Properties of the wide-table normalizer\<close>

lemma foldM_append: "foldM f (xs @ ys) s = bind (foldM f xs s) (foldM f ys)"
proof (induction xs arbitrary: s)
  case Nil
  then show ?case by simp
next
  case (Cons x xs)
  show ?case
    by (cases "f x s") (simp_all add: Cons.IH)
qed

lemma foldM_map_Pair: "foldM (\<lambda>(r, x). g r x) (map (Pair r) xs) s = foldM (g r) xs s"
proof (induction xs arbitrary: s)
  case Nil
  then show ?case by simp
next
  case (Cons x xs)
  show ?case
    by (cases "g r x s") (simp_all add: Cons.IH)
qed

lemma foldM_nested:
  "foldM (\<lambda>r. foldM (g r) (h r)) rs s =
   foldM (\<lambda>(r, x). g r x) (concat (map (\<lambda>r. map (Pair r) (h r)) rs)) s"
proof (induction rs arbitrary: s)
  case Nil
  then show ?case by simp
next
  case (Cons r rs)
  show ?case
    by (cases "foldM (g r) (h r) s") (simp_all add: foldM_append foldM_map_Pair Cons.IH)
qed

lemma add_count_Inr:
  assumes "add_count dates r (i, d) ls = Inr ls'"
  obtains loc where "key_of dates (r, i, d) = Some (loc, dates ! i)"
    and "ls' = AList.update (loc, dates ! i) (touched ls r loc (dates ! i) d) ls"
proof (cases "reformat_location (rec_country r) (rec_state r)")
  case (Inl e)
  with assms show ?thesis by (simp add: add_count_def)
next
  case (Inr loc)
  show ?thesis
  proof (cases "i < length dates")
    case True
    with Inr have "key_of dates (r, i, d) = Some (loc, dates ! i)"
      by (simp add: key_of_def)
    moreover from assms Inr True
    have "ls' = AList.update (loc, dates ! i) (touched ls r loc (dates ! i) d) ls"
      by (auto simp: add_count_def Let_def touched_def split: option.splits)
    ultimately show ?thesis
      by (rule that)
  next
    case False
    with assms Inr show ?thesis by (simp add: add_count_def)
  qed
qed

lemma with_key_snoc:
  "with_key dates k (cs @ [c]) = (if key_of dates c = Some k then with_key dates k cs @ [c] else with_key dates k cs)"
  by (simp add: with_key_def)

lemma lines_invariant:
  assumes "foldM (\<lambda>(r, x). add_count dates r x) cs [] = Inr ls"
  shows "distinct (map fst ls) \<and> map_of ls = summary dates cs \<and> (\<forall>c \<in> set cs. key_of dates c \<noteq> None)"
  using assms
proof (induction cs arbitrary: ls rule: rev_induct)
  case Nil
  then show ?case
    by (auto simp: summary_def with_key_def)
next
  case (snoc c cs)
  obtain r i d where c: "c = (r, i, d)" by (cases c) 
  from snoc.prems obtain ls0 where ls0: "foldM (\<lambda>(r, x). add_count dates r x) cs [] = Inr ls0"
    and step: "add_count dates r (i, d) ls0 = Inr ls"
    by (auto simp: foldM_append c bind_Inr_iff)
  from snoc.IH [OF ls0] have dist0: "distinct (map fst ls0)" and map0: "map_of ls0 = summary dates cs"
    and keys0: "\<forall>c \<in> set cs. key_of dates c \<noteq> None"
    by simp_all
  from step obtain loc where k: "key_of dates (r, i, d) = Some (loc, dates ! i)"
    and ls: "ls = AList.update (loc, dates ! i) (touched ls0 r loc (dates ! i) d) ls0"
    by (rule add_count_Inr)
  define k where "k = (loc, dates ! i)"
  note k = k [folded k_def] and ls = ls [folded k_def]
  have dist: "distinct (map fst ls)"
    unfolding ls using dist0 by (rule distinct_update)
  have "map_of ls k' = summary dates (cs @ [c]) k'" for k'
  proof (cases "k' = k")
    case False
    then show ?thesis
      using k by (auto simp: ls update_conv' map0 summary_def with_key_snoc c)
  next
    case True
    show ?thesis
    proof (cases "with_key dates k cs = []")
      case True
      then have "map_of ls0 k = None" by (simp add: map0 summary_def)
      then show ?thesis
        using k True \<open>k' = k\<close>
        by (simp add: ls update_conv' summary_def with_key_snoc c touched_def k_def)
    next
      case False
      then have "map_of ls0 k = Some \<lparr>location = fst k, country = rec_country (fst (hd (with_key dates k cs))),
                 deaths = sum_list (map (\<lambda>(r, i, d). d) (with_key dates k cs)),
                 population = sum_list (map (\<lambda>(r, i, d). get_Population r) (with_key dates k cs)),
                 date = snd k\<rparr>" by (simp add: map0 summary_def)
      then show ?thesis
        using k False \<open>k' = k\<close>
        by (simp add: ls update_conv' summary_def with_key_snoc c touched_def k_def)
    qed
  qed
  then have "map_of ls = summary dates (cs @ [c])" by (rule ext)
  with dist keys0 k c show ?case by simp
qed

text \<open>
  Claim C6. When \<^verbatim>\<open>reformat\<close> returns, its rows have pairwise different (location, date)
  keys; each row holds the sum of the counts and the sum of the populations (0 where the
  table has no \<^verbatim>\<open>Population\<close> column) of all the contributions with its key, of which
  there is at least one, and the country of the first of them; and every contribution
  of the table is counted in one of the rows. So two rows with counts 5 and 3 for one key
  give one row with 8, and a key that one contribution alone has gives one row with that
  contribution's values.
\<close>

theorem reformat_accumulates:
  assumes "reformat raw_data = Inr out"
    and "mapM reformat_date (date_columns raw_data) = Inr dates"
  shows "distinct (map (\<lambda>l. (location l, date l)) out)
    \<and> (\<forall>l \<in> set out.
          with_key dates (location l, date l) (contributions raw_data) \<noteq> []
          \<and> deaths l =
              sum_list (map (\<lambda>(r, i, d). d)
                (with_key dates (location l, date l) (contributions raw_data)))
          \<and> population l =
              sum_list (map (\<lambda>(r, i, d). get_Population r)
                (with_key dates (location l, date l) (contributions raw_data)))
          \<and> country l =
              rec_country (fst (hd (with_key dates (location l, date l) (contributions raw_data)))))
    \<and> (\<forall>c \<in> set (contributions raw_data).
          \<exists>l \<in> set out. key_of dates c = Some (location l, date l))"
proof -
  let ?cs = "contributions raw_data"
  from assms obtain ls
    where fold: "foldM (\<lambda>record. foldM (add_count dates record) (enumerate 0 (rec_counts record)))
                   (records raw_data) [] = Inr ls"
      and out: "out = map snd ls"
    by (auto simp: reformat_def bind_Inr_iff split: if_splits)
  from fold have "foldM (\<lambda>(r, x). add_count dates r x) ?cs [] = Inr ls"
    by (simp add: foldM_nested contributions_def)
  then have dist: "distinct (map fst ls)" and map_ls: "map_of ls = summary dates ?cs"
    and keys: "\<forall>c \<in> set ?cs. key_of dates c \<noteq> None"
    using lines_invariant by blast+
  have entry: "summary dates ?cs k = Some l" if "(k, l) \<in> set ls" for k l
    using that dist map_ls by (metis map_of_eq_Some_iff)
  have key_eq: "(location l, date l) = k" if "(k, l) \<in> set ls" for k l
    using entry [OF that] by (auto simp: summary_def split: if_splits)
  have "map (\<lambda>l. (location l, date l)) out = map fst ls"
    unfolding out by (auto simp: key_eq)
  with dist have first: "distinct (map (\<lambda>l. (location l, date l)) out)"
    by simp
  have second: "with_key dates (location l, date l) ?cs \<noteq> []
      \<and> deaths l = sum_list (map (\<lambda>(r, i, d). d) (with_key dates (location l, date l) ?cs))
      \<and> population l =
          sum_list (map (\<lambda>(r, i, d). get_Population r) (with_key dates (location l, date l) ?cs))
      \<and> country l = rec_country (fst (hd (with_key dates (location l, date l) ?cs)))"
    if "l \<in> set out" for l
  proof -
    from that obtain k where kl: "(k, l) \<in> set ls"
      by (auto simp: out)
    have k: "(location l, date l) = k"
      by (rule key_eq [OF kl])
    from entry [OF kl] have ne: "with_key dates k ?cs \<noteq> []"
      and l: "l = \<lparr>location = fst k, country = rec_country (fst (hd (with_key dates k ?cs))),
                 deaths = sum_list (map (\<lambda>(r, i, d). d) (with_key dates k ?cs)),
                 population = sum_list (map (\<lambda>(r, i, d). get_Population r) (with_key dates k ?cs)),
                 date = snd k\<rparr>"
      by (auto simp: summary_def split: if_splits)
    have "deaths l = sum_list (map (\<lambda>(r, i, d). d) (with_key dates k ?cs))"
      by (subst l) simp
    moreover have "population l = sum_list (map (\<lambda>(r, i, d). get_Population r) (with_key dates k ?cs))"
      by (subst l) simp
    moreover have "country l = rec_country (fst (hd (with_key dates k ?cs)))"
      by (subst l) simp
    ultimately show ?thesis
      unfolding k using ne by simp
  qed
  have third: "\<exists>l \<in> set out. key_of dates c = Some (location l, date l)"
    if "c \<in> set ?cs" for c
  proof -
    from that keys obtain k where k: "key_of dates c = Some k"
      by auto
    with that have "with_key dates k ?cs \<noteq> []"
      by (auto simp: with_key_def filter_empty_conv)
    then obtain l where "map_of ls k = Some l"
      by (auto simp: map_ls summary_def)
    then have kl: "(k, l) \<in> set ls"
      by (rule map_of_SomeD)
    then have "l \<in> set out"
      by (force simp: out)
    with key_eq [OF kl] k show ?thesis
      by auto
  qed
  from first second third show ?thesis
    by blast
qed

text \<open>
  Two rows of one country without a state, with counts 5 and 3 and populations 10 and 20
  on 3/14/20, give one row with 8 deaths and population 30; the row of Italy, alone with
  its key, appears once with its own values.
\<close>

theorem reformat_accumulates_witness:
  "reformat \<lparr>date_columns = [''3/14/20''], records =
      [\<lparr>rec_country = Str ''China'', rec_state = NaN, rec_Population = Some 10, rec_counts = [5]\<rparr>,
       \<lparr>rec_country = Str ''China'', rec_state = NaN, rec_Population = Some 20, rec_counts = [3]\<rparr>,
       \<lparr>rec_country = Str ''Italy'', rec_state = NaN, rec_Population = Some 60, rec_counts = [4]\<rparr>]\<rparr>
     = Inr [\<lparr>location = ''China'', country = Str ''China'', deaths = 8, population = 30, date = 18335\<rparr>,
            \<lparr>location = ''Italy'', country = Str ''Italy'', deaths = 4, population = 60, date = 18335\<rparr>]
   \<and> mapM reformat_date [''3/14/20''] = Inr [days_from_civil 2020 3 14]
   \<and> distinct (map (\<lambda>l. (location l, date l))
        [\<lparr>location = ''China'', country = Str ''China'', deaths = 8, population = 30, date = 18335\<rparr>,
         \<lparr>location = ''Italy'', country = Str ''Italy'', deaths = 4, population = 60, date = 18335\<rparr>])"
proof -
  let ?t = "\<lparr>date_columns = [''3/14/20''], records =
      [\<lparr>rec_country = Str ''China'', rec_state = NaN, rec_Population = Some 10, rec_counts = [5]\<rparr>,
       \<lparr>rec_country = Str ''China'', rec_state = NaN, rec_Population = Some 20, rec_counts = [3]\<rparr>,
       \<lparr>rec_country = Str ''Italy'', rec_state = NaN, rec_Population = Some 60, rec_counts = [4]\<rparr>]\<rparr>"
  let ?out = "[\<lparr>location = ''China'', country = Str ''China'', deaths = 8, population = 30, date = 18335\<rparr>,
            \<lparr>location = ''Italy'', country = Str ''Italy'', deaths = 4, population = 60, date = 18335\<rparr>]"
  have run: "reformat ?t = Inr ?out"
    by code_simp
  have dates: "mapM reformat_date (date_columns ?t) = Inr [18335]"
    by code_simp
  have day: "days_from_civil 2020 3 14 = 18335"
    by (simp add: calendar_defs)
  from reformat_accumulates [OF run dates]
  have "distinct (map (\<lambda>l. (location l, date l)) ?out)"
    by blast
  with run dates day show ?thesis
    by simp
qed

text \<open>Without a \<^verbatim>\<open>Population\<close> column every population is 0; a table of no rows raises.\<close>

lemma reformat_examples:
  "reformat \<lparr>date_columns = [''3/14/20'', ''3/15/20''], records =
      [\<lparr>rec_country = Str ''China'', rec_state = NaN, rec_Population = None, rec_counts = [5, 6]\<rparr>,
       \<lparr>rec_country = Str ''China'', rec_state = NaN, rec_Population = None, rec_counts = [3, 1]\<rparr>]\<rparr>
     = Inr [\<lparr>location = ''China'', country = Str ''China'', deaths = 8, population = 0, date = 18335\<rparr>,
            \<lparr>location = ''China'', country = Str ''China'', deaths = 7, population = 0, date = 18336\<rparr>]"
  "reformat \<lparr>date_columns = [''3/14/20''], records = []\<rparr> = Inl KeyError"
  by code_simp+

section \<open>Properties of the array builders\<close>

lemma to_xarray_names:
  "map fst (ds_dims (to_xarray df)) = [''index'']" "map fst (ds_coords (to_xarray df)) = [''index'']"
  by (simp_all add: to_xarray_def)

lemma rename_Inr:
  assumes "rename nd ds = Inr ds'"
  shows "map fst (ds_dims ds') = map (new_name nd) (map fst (ds_dims ds))"
    and "map fst (ds_coords ds') = map (new_name nd) (map fst (ds_coords ds))"
  using assms by (auto simp: rename_def rename_variable_def split: if_splits)

lemma set_coords_Inr:
  assumes "set_coords names ds = Inr ds'"
  shows "ds_dims ds' = ds_dims ds"
    and "set (map fst (ds_coords ds')) = set (map fst (ds_coords ds)) \<union> set names"
proof -
  from assms have sub: "set names \<subseteq> fst ` set (ds_coords ds) \<union> fst ` set (data_vars ds)"
    and ds': "ds' = ds\<lparr>ds_coords := ds_coords ds @ filter (\<lambda>v. fst v \<in> set names) (data_vars ds),
                        data_vars := filter (\<lambda>v. fst v \<notin> set names) (data_vars ds)\<rparr>"
    by (auto simp: set_coords_def variable_names_def split: if_splits)
  show "ds_dims ds' = ds_dims ds"
    by (simp add: ds')
  have "fst ` set (filter (\<lambda>v. fst v \<in> set names) (data_vars ds)) = set names \<inter> fst ` set (data_vars ds)"
    by force
  with sub show "set (map fst (ds_coords ds')) = set (map fst (ds_coords ds)) \<union> set names"
    by (auto simp: ds' image_Un)
qed

lemma drop_vars_Inr:
  assumes "drop_vars names ds = Inr ds'"
  shows "ds_dims ds' = ds_dims ds"
    and "set (map fst (ds_coords ds')) = set (map fst (ds_coords ds)) - set names"
  using assms by (auto simp: drop_vars_def split: if_splits)

lemma to_array_Inr:
  assumes "to_array d ds = Inr da"
  shows "map fst (dims da) = d # map fst (ds_dims ds)"
    and "set (map fst (coords da)) = insert d (set (map fst (ds_coords ds)))"
proof -
  from assms have da: "dims da = (d, length (data_vars ds)) # ds_dims ds"
    "coords da = AList.update d ([d], map (\<lambda>v. Str (fst v)) (data_vars ds)) (ds_coords ds)"
    by (auto simp: to_array_def split: if_splits)
  show "map fst (dims da) = d # map fst (ds_dims ds)"
    by (simp add: da)
  show "set (map fst (coords da)) = insert d (set (map fst (ds_coords ds)))"
    by (simp add: da dom_update)
qed

lemma assign_coord_Inr:
  assumes "assign_coord new da = Inr da'"
  shows "dims da' = dims da"
    and "set (map fst (coords da')) = insert (fst new) (set (map fst (coords da)))"
proof -
  obtain name d vs where new: "new = (name, d, vs)"
    by (cases new)
  with assms have da': "da' = da\<lparr>coords := AList.update name ([d], vs) (coords da)\<rparr>"
    by (auto simp: assign_coord_def split: if_splits)
  show "dims da' = dims da"
    by (simp add: da')
  show "set (map fst (coords da')) = insert (fst new) (set (map fst (coords da)))"
    by (simp add: da' new dom_update)
qed

lemma assign_coords_Inr:
  assumes "assign_coords new da = Inr da'"
  shows "dims da' = dims da \<and> set (map fst (coords da')) = set (map fst new) \<union> set (map fst (coords da))"
  using assms unfolding assign_coords_def
proof (induction new arbitrary: da)
  case Nil
  then show ?case by simp
next
  case (Cons n new)
  from Cons.prems obtain da1 where one: "assign_coord n da = Inr da1" and rest: "foldM assign_coord new da1 = Inr da'"
    by (auto simp: bind_Inr_iff)
  from Cons.IH [OF rest] assign_coord_Inr [OF one] show ?case
    by auto
qed

lemma swap_dims_Inr:
  assumes "swap_dims dd da = Inr da'"
  shows "map fst (dims da') = map (new_name dd) (map fst (dims da))"
    and "map fst (coords da') = map fst (coords da)"
  using assms by (auto simp: swap_dims_def split: if_splits)

lemma drop_da_Inr:
  assumes "drop_da names da = Inr da'"
  shows "dims da' = dims da"
    and "set (map fst (coords da')) = set (map fst (coords da)) - set names"
  using assms by (auto simp: drop_da_def split: if_splits)

lemma jhu_global_names:
  assumes "jhu_global_to_xarray df = Inr da"
  shows "map fst (dims da) = [''time'', ''location'']"
    and "set (map fst (coords da)) = {''country'', ''lat'', ''lon'', ''time'', ''location''}"
proof -
  from assms obtain ds1 ds2 da3 tm loc da4 da5
    where 1: "rename [(''Country/Region'', ''country''), (''Province/State'', ''state''),
                   (''Lat'', ''lat''), (''Long'', ''lon'')] (to_xarray df) = Inr ds1"
      and 2: "set_coords [''country'', ''state'', ''lat'', ''lon''] ds1 = Inr ds2"
      and 3: "to_array ''date'' ds2 = Inr da3"
      and 4: "assign_coords [(''time'', ''date'', map Date tm), (''location'', ''index'', map Str loc)] da3 = Inr da4"
      and 5: "swap_dims [(''date'', ''time''), (''index'', ''location'')] da4 = Inr da5"
      and 6: "drop_da [''index'', ''date'', ''state''] da5 = Inr da"
    unfolding jhu_global_to_xarray_def bind_Inr_iff by blast
  have d1: "map fst (ds_dims ds1) = [''index'']" and c1: "map fst (ds_coords ds1) = [''index'']"
    using rename_Inr [OF 1] by (simp_all add: to_xarray_names new_name_def)
  have d2: "map fst (ds_dims ds2) = [''index'']"
    and c2: "set (map fst (ds_coords ds2)) = {''index'', ''country'', ''state'', ''lat'', ''lon''}"
    using set_coords_Inr [OF 2] d1 c1 by auto
  have d3: "map fst (dims da3) = [''date'', ''index'']"
    and c3: "set (map fst (coords da3)) = {''date'', ''index'', ''country'', ''state'', ''lat'', ''lon''}"
    using to_array_Inr [OF 3] d2 c2 by auto
  have d4: "map fst (dims da4) = [''date'', ''index'']"
    and c4: "set (map fst (coords da4)) =
      {''time'', ''location'', ''date'', ''index'', ''country'', ''state'', ''lat'', ''lon''}"
    using assign_coords_Inr [OF 4] d3 c3 by auto
  have d5: "map fst (dims da5) = [''time'', ''location'']"
    and c5: "set (map fst (coords da5)) =
      {''time'', ''location'', ''date'', ''index'', ''country'', ''state'', ''lat'', ''lon''}"
    using swap_dims_Inr [OF 5] d4 c4 by (simp_all add: new_name_def)
  show "map fst (dims da) = [''time'', ''location'']"
    using drop_da_Inr(1) [OF 6] d5 by simp
  show "set (map fst (coords da)) = {''country'', ''lat'', ''lon'', ''time'', ''location''}"
    unfolding drop_da_Inr(2) [OF 6] c5 by auto
qed


lemma jhu_usa_names:
  assumes "jhu_usa_to_xarray df = Inr da"
  shows "map fst (dims da) = [''time'', ''location'']"
    and "set (map fst (coords da)) =
      {''country'', ''state'', ''lat'', ''lon'', ''population'', ''time'', ''location''}"
proof -
  from assms obtain ds1 ds2 ds2' da3 tm loc da4 da5
    where 1: "rename [(''Country_Region'', ''country''), (''Province_State'', ''state''),
                   (''Admin2'', ''county''), (''Lat'', ''lat''), (''Long_'', ''lon''),
                   (''Population'', ''population'')] (to_xarray df) = Inr ds1"
      and 2: "set_coords [''country'', ''state'', ''county'', ''lat'', ''lon'', ''population''] ds1 = Inr ds2"
      and 7: "drop_vars [''UID'', ''iso2'', ''iso3'', ''code3'', ''FIPS'', ''Combined_Key''] ds2 = Inr ds2'"
      and 3: "to_array ''date'' ds2' = Inr da3"
      and 4: "assign_coords [(''time'', ''date'', map Date tm), (''location'', ''index'', map Str loc)] da3 = Inr da4"
      and 5: "swap_dims [(''date'', ''time''), (''index'', ''location'')] da4 = Inr da5"
      and 6: "drop_da [''index'', ''date'', ''county''] da5 = Inr da"
    unfolding jhu_usa_to_xarray_def bind_Inr_iff by blast
  have d1: "map fst (ds_dims ds1) = [''index'']" and c1: "map fst (ds_coords ds1) = [''index'']"
    using rename_Inr [OF 1] by (simp_all add: to_xarray_names new_name_def)
  have d2: "map fst (ds_dims ds2) = [''index'']"
    and c2: "set (map fst (ds_coords ds2)) =
      {''index'', ''country'', ''state'', ''county'', ''lat'', ''lon'', ''population''}"
    using set_coords_Inr [OF 2] d1 c1 by auto
  have d2': "map fst (ds_dims ds2') = [''index'']"
    and c2': "set (map fst (ds_coords ds2')) =
      {''index'', ''country'', ''state'', ''county'', ''lat'', ''lon'', ''population''}"
    using drop_vars_Inr [OF 7] d2 c2 by auto
  have d3: "map fst (dims da3) = [''date'', ''index'']"
    and c3: "set (map fst (coords da3)) =
      {''date'', ''index'', ''country'', ''state'', ''county'', ''lat'', ''lon'', ''population''}"
    using to_array_Inr [OF 3] d2' c2' by auto
  have d4: "map fst (dims da4) = [''date'', ''index'']"
    and c4: "set (map fst (coords da4)) =
      {''time'', ''location'', ''date'', ''index'', ''country'', ''state'', ''county'', ''lat'', ''lon'',
       ''population''}"
    using assign_coords_Inr [OF 4] d3 c3 by auto
  have d5: "map fst (dims da5) = [''time'', ''location'']"
    and c5: "set (map fst (coords da5)) =
      {''time'', ''location'', ''date'', ''index'', ''country'', ''state'', ''county'', ''lat'', ''lon'',
       ''population''}"
    using swap_dims_Inr [OF 5] d4 c4 by (simp_all add: new_name_def)
  show "map fst (dims da) = [''time'', ''location'']"
    using drop_da_Inr(1) [OF 6] d5 by simp
  show "set (map fst (coords da)) =
      {''country'', ''state'', ''lat'', ''lon'', ''population'', ''time'', ''location''}"
    unfolding drop_da_Inr(2) [OF 6] c5 by auto
qed

lemma jhu_global_cdm:
  assumes "jhu_global_to_xarray df = Inr da"
  shows "cdm_check da = Inr ()"
proof -
  have d: "set (map fst (dims da)) = {''time'', ''location''}"
    using jhu_global_names(1) [OF assms] by (simp only: list.set)
  have c: "set (map fst (coords da)) = {''country'', ''lat'', ''lon'', ''time'', ''location''}"
    by (rule jhu_global_names(2) [OF assms])
  show ?thesis
    unfolding cdm_check_def Let_def d c by (simp add: CDM_DIMS_def CDM_COORDS_def)
qed

lemma jhu_usa_cdm:
  assumes "jhu_usa_to_xarray df = Inr da"
  shows "cdm_check da = Inl (Unsupported_coords {''population''})"
proof -
  have d: "set (map fst (dims da)) = {''time'', ''location''}"
    using jhu_usa_names(1) [OF assms] by (simp only: list.set)
  have c: "set (map fst (coords da)) =
      {''country'', ''state'', ''lat'', ''lon'', ''population'', ''time'', ''location''}"
    by (rule jhu_usa_names(2) [OF assms])
  show ?thesis
    unfolding cdm_check_def Let_def d c by (auto simp: CDM_DIMS_def CDM_COORDS_def)
qed

lemma zip_map_self: "zip xs (map f xs) = map (\<lambda>x. (x, f x)) xs"
  by (induction xs) auto

lemma positions3:
  "p \<in> set (positions [a, b, c]) \<Longrightarrow> \<exists>i j k. p = [i, j, k] \<and> i < a \<and> j < b \<and> k < c"
  by auto

lemma assign_coord_cells:
  assumes "assign_coord new da = Inr da'"
  shows "cells da' = cells da"
    and "n \<noteq> fst new \<Longrightarrow> map_of (coords da') n = map_of (coords da) n"
  using assms by (auto simp: assign_coord_def update_conv' split: if_splits prod.splits)

lemma assign_coords_cells:
  assumes "assign_coords new da = Inr da'"
  shows "cells da' = cells da \<and> (n \<notin> set (map fst new) \<longrightarrow> map_of (coords da') n = map_of (coords da) n)"
  using assms unfolding assign_coords_def
proof (induction new arbitrary: da)
  case Nil
  then show ?case by simp
next
  case (Cons x new)
  from Cons.prems obtain da1 where one: "assign_coord x da = Inr da1" and rest: "foldM assign_coord new da1 = Inr da'"
    by (auto simp: bind_Inr_iff)
  from Cons.IH [OF rest] assign_coord_cells(1) [OF one] assign_coord_cells(2) [OF one, of n]
  show ?case
    by auto
qed

lemma sort_remdups_cong: "set xs = set ys \<Longrightarrow> sort (remdups xs) = sort (remdups ys)"
  by (metis sorted_list_of_set_sort_remdups)

lemma groupby_agg_keys: "map fst (groupby_agg istat) = sort (remdups (map group_key istat))"
  by (simp add: groupby_agg_def comp_def)

lemma groupby_agg_levels:
  "sort (remdups (map (\<lambda>((t, a, l), vs). t) (groupby_agg istat))) = sort (remdups (map time istat))"
  "sort (remdups (map (\<lambda>((t, a, l), vs). a) (groupby_agg istat))) = sort (remdups (map age_class istat))"
  "sort (remdups (map (\<lambda>((t, a, l), vs). l) (groupby_agg istat))) = sort (remdups (map NOME_COMUNE istat))"
  by (rule sort_remdups_cong; force simp: groupby_agg_def group_key_def)+

lemma groupby_agg_lookup:
  "map_of (groupby_agg istat) k =
     (if k \<in> group_key ` set istat
      then Some (map (\<lambda>(name, col). group_sum col (filter (\<lambda>r. group_key r = k) istat)) totals)
      else None)"
  by (simp add: groupby_agg_def map_of_map_restrict restrict_map_def)

lemma rename_levels:
  "rename [(''NOME_COMUNE'', ''location'')] (levels_to_xarray tmp) = Inr ds \<Longrightarrow>
   ds_dims ds = [(''time'', length (sort (remdups (map (\<lambda>((t, a, l), vs). t) tmp)))),
                 (''age_class'', length (sort (remdups (map (\<lambda>((t, a, l), vs). a) tmp)))),
                 (''location'', length (sort (remdups (map (\<lambda>((t, a, l), vs). l) tmp))))]
   \<and> ds_coords ds = [(''time'', [''time''], map Date (sort (remdups (map (\<lambda>((t, a, l), vs). t) tmp)))),
                       (''age_class'', [''age_class''], map Str (sort (remdups (map (\<lambda>((t, a, l), vs). a) tmp)))),
                       (''location'', [''location''], map Str (sort (remdups (map (\<lambda>((t, a, l), vs). l) tmp))))]
   \<and> map (snd \<circ> snd) (data_vars ds) = map (snd \<circ> snd) (data_vars (levels_to_xarray tmp))
   \<and> length (data_vars ds) = 6"
  by (auto simp: rename_def levels_to_xarray_def Let_def new_name_def rename_variable_def totals_def
      split: if_splits)


lemma to_array_cells:
  assumes "to_array d ds = Inr da" and "(q, v) \<in> set (cells da)"
  shows "\<exists>j p. j < length (data_vars ds) \<and> q = j # p
           \<and> (p, v) \<in> set (zip (positions (map snd (ds_dims ds))) (snd (snd (data_vars ds ! j))))"
proof -
  from assms(1) have "cells da =
      concat (map (\<lambda>(j, (n, ds', vs)). map (\<lambda>(p, v). (j # p, v)) (zip (positions (map snd (ds_dims ds))) vs))
                          (enumerate 0 (data_vars ds)))"
    by (auto simp: to_array_def split: if_splits)
  with assms(2) obtain j n ds' vs p
    where "(j, n, ds', vs) \<in> set (enumerate 0 (data_vars ds))"
      and "(p, v) \<in> set (zip (positions (map snd (ds_dims ds))) vs)" and "q = j # p"
    by auto
  then show ?thesis
    by (auto simp: in_set_enumerate_eq)
qed

lemma fillna_values:
  "j < length (data_vars ds) \<Longrightarrow>
   snd (snd (data_vars (fillna0 ds) ! j)) = map fill0 (snd (snd (data_vars ds ! j)))"
  by (simp add: fillna0_def case_prod_beta)

lemma levels_values:
  assumes "j < 6"
  shows "snd (snd (data_vars (levels_to_xarray tmp) ! j)) =
    map (\<lambda>p. case map_of tmp (sort (remdups (map (\<lambda>((t, a, l), vs). t) tmp)) ! (p ! 0),
                               sort (remdups (map (\<lambda>((t, a, l), vs). a) tmp)) ! (p ! 1),
                               sort (remdups (map (\<lambda>((t, a, l), vs). l) tmp)) ! (p ! 2)) of
                Some vs \<Rightarrow> vs ! j
              | None \<Rightarrow> NaN)
      (positions [length (sort (remdups (map (\<lambda>((t, a, l), vs). t) tmp))),
                  length (sort (remdups (map (\<lambda>((t, a, l), vs). a) tmp))),
                  length (sort (remdups (map (\<lambda>((t, a, l), vs). l) tmp)))])"
proof -
  have len: "length totals = 6"
    by (simp add: totals_def)
  with assms show ?thesis
    by (auto simp: levels_to_xarray_def Let_def nth_enumerate_eq case_prod_beta split: option.splits)
qed

lemma group_sum_not_NaN: "j < 6 \<Longrightarrow> map (\<lambda>(name, col). group_sum col rows) totals ! j \<noteq> NaN"
  by (simp add: totals_def group_sum_def nth_Cons split: nat.splits)


lemma fillna_frame:
  "ds_dims (fillna0 ds) = ds_dims ds" "ds_coords (fillna0 ds) = ds_coords ds"
  "length (data_vars (fillna0 ds)) = length (data_vars ds)"
  by (simp_all add: fillna0_def)

lemma to_array_frame:
  assumes "to_array d ds = Inr da"
  shows "dims da = (d, length (data_vars ds)) # ds_dims ds"
    and "n \<noteq> d \<Longrightarrow> map_of (coords da) n = map_of (ds_coords ds) n"
  using assms by (auto simp: to_array_def update_conv' split: if_splits)

lemma label_value:
  "map_of (coords da) n = Some (ds, vs) \<Longrightarrow> i < length vs \<Longrightarrow> label da n i = Inr (vs ! i)"
  by (simp add: label_def coord_values_def)

lemma istat_cells_filled:
  assumes "istat_to_xarray path drop_rows = Inr (istat, data)"
  shows "\<forall>(q, v) \<in> set (cells data).
           v \<noteq> NaN
           \<and> ((\<forall>r \<in> set istat.
                  label data ''time'' (q ! 1) \<noteq> Inr (Date (time r))
                  \<or> label data ''age_class'' (q ! 2) \<noteq> Inr (Str (age_class r))
                  \<or> label data ''location'' (q ! 3) \<noteq> Inr (Str (NOME_COMUNE r)))
                \<longrightarrow> v = Num 0)"
proof -
  define tmp where "tmp = groupby_agg istat"
  define ts where "ts = sort (remdups (map (\<lambda>((t, a, l), vs). t) tmp))"
  define ags where "ags = sort (remdups (map (\<lambda>((t, a, l), vs). a) tmp))"
  define ls where "ls = sort (remdups (map (\<lambda>((t, a, l), vs). l) tmp))"
  from assms obtain ds1 da2 years
    where istat: "istat = istat_to_pandas path drop_rows"
      and 1: "rename [(''NOME_COMUNE'', ''location'')] (levels_to_xarray tmp) = Inr ds1"
      and 2: "to_array ''year'' (fillna0 ds1) = Inr da2"
      and 3: "assign_coords [(''region'', ''location'', first_of NOME_REGIONE istat),
                              (''province'', ''location'', first_of NOME_PROVINCIA istat),
                              (''year'', ''year'', years)] da2 = Inr data"
    unfolding istat_to_xarray_def Let_def bind_Inr_iff tmp_def by auto
  note ds1 = rename_levels [OF 1, folded ts_def ags_def ls_def]
  have shape: "map snd (ds_dims (fillna0 ds1)) = [length ts, length ags, length ls]"
    using ds1 by (simp add: fillna_frame)
  have coords2: "map_of (coords da2) ''time'' = Some ([''time''], map Date ts)"
    "map_of (coords da2) ''age_class'' = Some ([''age_class''], map Str ags)"
    "map_of (coords da2) ''location'' = Some ([''location''], map Str ls)"
    using ds1 by (simp_all add: to_array_frame(2) [OF 2] fillna_frame)
  have coords3: "map_of (coords data) ''time'' = Some ([''time''], map Date ts)"
    "map_of (coords data) ''age_class'' = Some ([''age_class''], map Str ags)"
    "map_of (coords data) ''location'' = Some ([''location''], map Str ls)"
    using assign_coords_cells [OF 3, of "''time''"] assign_coords_cells [OF 3, of "''age_class''"]
      assign_coords_cells [OF 3, of "''location''"] coords2
    by simp_all
  have cells3: "cells data = cells da2"
    using assign_coords_cells [OF 3] by simp
  have vals: "snd (snd (data_vars (fillna0 ds1) ! j)) =
      map (\<lambda>p. fill0 (case map_of tmp (ts ! (p ! 0), ags ! (p ! 1), ls ! (p ! 2)) of
                         Some vs \<Rightarrow> vs ! j | None \<Rightarrow> NaN))
        (positions [length ts, length ags, length ls])" if "j < 6" for j
  proof -
    have len1: "length (data_vars ds1) = 6"
      and eq: "map (snd \<circ> snd) (data_vars ds1) = map (snd \<circ> snd) (data_vars (levels_to_xarray tmp))"
      using ds1 by simp_all
    have len0: "length (data_vars (levels_to_xarray tmp)) = 6"
      by (simp add: levels_to_xarray_def Let_def totals_def)
    have "snd (snd (data_vars ds1 ! j)) = map (snd \<circ> snd) (data_vars ds1) ! j"
      using that len1 by simp
    also have "\<dots> = map (snd \<circ> snd) (data_vars (levels_to_xarray tmp)) ! j"
      by (simp only: eq)
    also have "\<dots> = snd (snd (data_vars (levels_to_xarray tmp) ! j))"
      using that len0 by simp
    finally show ?thesis
      using that ds1 by (simp add: fillna_values levels_values ts_def ags_def ls_def comp_def)
  qed
  have "v \<noteq> NaN
      \<and> ((\<forall>r \<in> set istat.
            label data ''time'' (q ! 1) \<noteq> Inr (Date (time r))
            \<or> label data ''age_class'' (q ! 2) \<noteq> Inr (Str (age_class r))
            \<or> label data ''location'' (q ! 3) \<noteq> Inr (Str (NOME_COMUNE r)))
          \<longrightarrow> v = Num 0)" if "(q, v) \<in> set (cells data)" for q v
  proof -
    from that have "(q, v) \<in> set (cells da2)"
      by (simp only: cells3)
    from to_array_cells [OF 2 this] obtain j p
      where j': "j < length (data_vars (fillna0 ds1))" and q: "q = j # p"
        and pv': "(p, v) \<in> set (zip (positions (map snd (ds_dims (fillna0 ds1))))
                    (snd (snd (data_vars (fillna0 ds1) ! j))))"
      by blast
    have j: "j < 6"
      using j' ds1 by (simp add: fillna_frame)
    have pv: "(p, v) \<in> set (zip (positions [length ts, length ags, length ls])
                    (snd (snd (data_vars (fillna0 ds1) ! j))))"
      using pv' unfolding shape .
    from pv have p: "p \<in> set (positions [length ts, length ags, length ls])"
      and v: "v = fill0 (case map_of tmp (ts ! (p ! 0), ags ! (p ! 1), ls ! (p ! 2)) of
                         Some vs \<Rightarrow> vs ! j | None \<Rightarrow> NaN)"
      unfolding vals [OF j] zip_map_self by auto
    from positions3 [OF p] obtain i1 i2 i3
      where p3: "p = [i1, i2, i3]" and bounds: "i1 < length ts" "i2 < length ags" "i3 < length ls"
      by blast
    have labels: "label data ''time'' (q ! 1) = Inr (Date (ts ! i1))"
      "label data ''age_class'' (q ! 2) = Inr (Str (ags ! i2))"
      "label data ''location'' (q ! 3) = Inr (Str (ls ! i3))"
      using bounds by (simp_all add: q p3 label_value [OF coords3(1)] label_value [OF coords3(2)]
          label_value [OF coords3(3)])
    show ?thesis
    proof (cases "(ts ! i1, ags ! i2, ls ! i3) \<in> group_key ` set istat")
      case True
      then have "v \<noteq> NaN"
        using j group_sum_not_NaN [OF j]
        by (simp add: v p3 tmp_def groupby_agg_lookup fill0_def)
      moreover from True obtain r where "r \<in> set istat" "time r = ts ! i1" "age_class r = ags ! i2"
        "NOME_COMUNE r = ls ! i3"
        by (auto simp: group_key_def)
      ultimately show ?thesis
        unfolding labels by auto
    next
      case False
      then have "v = Num 0"
        by (simp add: v p3 tmp_def groupby_agg_lookup fill0_def)
      then show ?thesis
        by simp
    qed
  qed
  then show ?thesis
    by blast
qed

lemma rename_levels_ok:
  "\<exists>ds. rename [(''NOME_COMUNE'', ''location'')] (levels_to_xarray tmp) = Inr ds"
  by (simp add: rename_def levels_to_xarray_def Let_def variable_names_def totals_def new_name_def)

lemma rename_levels_names:
  "rename [(''NOME_COMUNE'', ''location'')] (levels_to_xarray tmp) = Inr ds \<Longrightarrow>
   map fst (data_vars ds) = [''2015'', ''2016'', ''2017'', ''2018'', ''2019'', ''2020'']"
  by (auto simp: rename_def levels_to_xarray_def Let_def new_name_def rename_variable_def totals_def
      split: if_splits)

lemma years_astype_int:
  "mapM astype_int (map Str [''2015'', ''2016'', ''2017'', ''2018'', ''2019'', ''2020'']) =
     Inr [Num 2015, Num 2016, Num 2017, Num 2018, Num 2019, Num 2020]"
  by code_simp

lemma length_first_of: "length (first_of col istat) = length (sort (remdups (map NOME_COMUNE istat)))"
  by (simp add: first_of_def)

lemma to_array_ok:
  "data_vars ds \<noteq> [] \<Longrightarrow> \<exists>da. to_array d ds = Inr da"
  by (simp add: to_array_def)

lemma to_array_year:
  assumes "to_array d ds = Inr da"
  shows "coord_values da d = Inr (map (\<lambda>v. Str (fst v)) (data_vars ds))"
  using assms by (auto simp: to_array_def coord_values_def update_conv' split: if_splits)

lemma assign_coord_ok:
  "map_of (dims da) d = Some (length vs) \<Longrightarrow>
   assign_coord (name, d, vs) da = Inr (da\<lparr>coords := AList.update name ([d], vs) (coords da)\<rparr>)"
  by (simp add: assign_coord_def)

lemma istat_to_xarray_returns:
  "\<exists>data. istat_to_xarray path drop_rows = Inr (istat_to_pandas path drop_rows, data)"
proof -
  define istat where "istat = istat_to_pandas path drop_rows"
  define tmp where "tmp = groupby_agg istat"
  obtain ds1 where 1: "rename [(''NOME_COMUNE'', ''location'')] (levels_to_xarray tmp) = Inr ds1"
    using rename_levels_ok by blast
  note ds1 = rename_levels [OF 1]
  have "data_vars (fillna0 ds1) \<noteq> []"
    using ds1 fillna_frame(3) [of ds1] by auto
  then obtain da2 where 2: "to_array ''year'' (fillna0 ds1) = Inr da2"
    using to_array_ok by blast
  have names: "map (\<lambda>v. Str (fst v)) (data_vars (fillna0 ds1)) =
      map Str [''2015'', ''2016'', ''2017'', ''2018'', ''2019'', ''2020'']"
  proof -
    have "map (\<lambda>v. Str (fst v)) (data_vars (fillna0 ds1)) = map Str (map fst (data_vars ds1))"
      by (simp add: fillna0_def case_prod_beta comp_def)
    then show ?thesis
      by (simp only: rename_levels_names [OF 1])
  qed
  have years: "coord_values da2 ''year'' =
      Inr (map Str [''2015'', ''2016'', ''2017'', ''2018'', ''2019'', ''2020''])"
    using to_array_year [OF 2] names by simp
  have dims2: "dims da2 = [(''year'', 6), (''time'', length (sort (remdups (map time istat)))),
      (''age_class'', length (sort (remdups (map age_class istat)))),
      (''location'', length (sort (remdups (map NOME_COMUNE istat))))]"
    using to_array_frame(1) [OF 2] ds1
    by (simp add: fillna_frame tmp_def groupby_agg_levels)
  have "\<exists>data. assign_coords [(''region'', ''location'', first_of NOME_REGIONE istat),
                              (''province'', ''location'', first_of NOME_PROVINCIA istat),
                              (''year'', ''year'', [Num 2015, Num 2016, Num 2017, Num 2018, Num 2019, Num 2020])]
          da2 = Inr data"
    by (simp add: assign_coords_def assign_coord_def dims2 length_first_of)
  then show ?thesis
    using 1 2 years
    by (auto simp: istat_to_xarray_def Let_def istat_def [symmetric] tmp_def [symmetric] years_astype_int
        simp del: list.map)
qed


lemma map_fst_stacked:
  assumes "\<forall>x \<in> set xs. length (snd (snd x)) = length ps"
  shows "map fst (concat (map (\<lambda>(j, (n, ds', vs)). map (\<lambda>(p, v). (j # p, v)) (zip ps vs)) (enumerate k xs))) =
    concat (map (\<lambda>j. map ((#) j) ps) [k..<k + length xs])"
  using assms
proof (induction xs arbitrary: k)
  case Nil
  then show ?case by simp
next
  case (Cons x xs)
  obtain n ds' vs where x: "x = (n, ds', vs)"
    by (cases x)
  with Cons.prems have len: "length vs = length ps"
    by simp
  have "map fst (map (\<lambda>(p, v). (k # p, v)) (zip ps vs)) = map ((#) k) (map fst (zip ps vs))"
    by (simp add: case_prod_beta comp_def)
  also have "\<dots> = map ((#) k) ps"
    using len by simp
  finally have head: "map fst (map (\<lambda>(p, v). (k # p, v)) (zip ps vs)) = map ((#) k) ps" .
  have tail: "map fst (concat (map (\<lambda>(j, (n, ds', vs)). map (\<lambda>(p, v). (j # p, v)) (zip ps vs))
        (enumerate (Suc k) xs))) = concat (map (\<lambda>j. map ((#) j) ps) [Suc k..<Suc k + length xs])"
    using Cons.prems by (intro Cons.IH) simp
  have "k < k + length (x # xs)"
    by simp
  then have range: "[k..<k + length (x # xs)] = k # [Suc k..<k + length (x # xs)]"
    by (rule upt_conv_Cons)
  have e: "Suc k + length xs = k + length (x # xs)"
    by simp
  show ?case
    unfolding range using head tail [unfolded e] by (simp add: x del: upt_Suc)
qed

lemma to_array_positions:
  assumes "to_array d ds = Inr da"
    and "\<forall>v \<in> set (data_vars ds). length (snd (snd v)) = length (positions (map snd (ds_dims ds)))"
  shows "map fst (cells da) = positions (map snd (dims da))"
proof -
  from assms(1) have cells: "cells da =
      concat (map (\<lambda>(j, (n, ds', vs)). map (\<lambda>(p, v). (j # p, v)) (zip (positions (map snd (ds_dims ds))) vs))
        (enumerate 0 (data_vars ds)))"
    and dims: "dims da = (d, length (data_vars ds)) # ds_dims ds"
    by (auto simp: to_array_def split: if_splits)
  show ?thesis
    unfolding cells map_fst_stacked [OF assms(2)] by (simp add: dims)
qed

lemma istat_names:
  assumes "istat_to_xarray path drop_rows = Inr (istat, data)"
  shows "map fst (dims data) = [''year'', ''time'', ''age_class'', ''location'']"
    and "set (map fst (coords data)) =
      {''region'', ''province'', ''year'', ''time'', ''age_class'', ''location''}"
    and "map fst (cells data) = positions (map snd (dims data))"
proof -
  define tmp where "tmp = groupby_agg istat"
  from assms obtain ds1 da2 years
    where 1: "rename [(''NOME_COMUNE'', ''location'')] (levels_to_xarray tmp) = Inr ds1"
      and 2: "to_array ''year'' (fillna0 ds1) = Inr da2"
      and 3: "assign_coords [(''region'', ''location'', first_of NOME_REGIONE istat),
                              (''province'', ''location'', first_of NOME_PROVINCIA istat),
                              (''year'', ''year'', years)] da2 = Inr data"
    unfolding istat_to_xarray_def Let_def bind_Inr_iff tmp_def by auto
  note ds1 = rename_levels [OF 1]
  have d2: "map fst (dims da2) = [''year'', ''time'', ''age_class'', ''location'']"
    using to_array_Inr(1) [OF 2] ds1 by (simp add: fillna_frame)
  have c2: "set (map fst (coords da2)) = {''year'', ''time'', ''age_class'', ''location''}"
    using to_array_Inr(2) [OF 2] ds1 by (simp add: fillna_frame)
  show "map fst (dims data) = [''year'', ''time'', ''age_class'', ''location'']"
    using assign_coords_Inr [OF 3] d2 by simp
  show "set (map fst (coords data)) =
      {''region'', ''province'', ''year'', ''time'', ''age_class'', ''location''}"
    using assign_coords_Inr [OF 3] c2 by auto
  have "\<forall>v \<in> set (data_vars (fillna0 ds1)).
      length (snd (snd v)) = length (positions (map snd (ds_dims (fillna0 ds1))))"
  proof
    fix v assume "v \<in> set (data_vars (fillna0 ds1))"
    then obtain j where j: "j < 6" and v: "v = data_vars (fillna0 ds1) ! j"
      using ds1 by (auto simp: in_set_conv_nth fillna_frame)
    have len1: "length (data_vars ds1) = 6"
      and eq: "map (snd \<circ> snd) (data_vars ds1) = map (snd \<circ> snd) (data_vars (levels_to_xarray tmp))"
      using ds1 by simp_all
    have len0: "length (data_vars (levels_to_xarray tmp)) = 6"
      by (simp add: levels_to_xarray_def Let_def totals_def)
    have "snd (snd (data_vars ds1 ! j)) = map (snd \<circ> snd) (data_vars ds1) ! j"
      using j len1 by simp
    also have "\<dots> = map (snd \<circ> snd) (data_vars (levels_to_xarray tmp)) ! j"
      by (simp only: eq)
    also have "\<dots> = snd (snd (data_vars (levels_to_xarray tmp) ! j))"
      using j len0 by simp
    finally have "length (snd (snd (data_vars ds1 ! j))) =
        length (positions (map snd (ds_dims ds1)))"
      using ds1 by (simp add: levels_values [OF j] del: positions.simps)
    then show "length (snd (snd v)) = length (positions (map snd (ds_dims (fillna0 ds1))))"
      using j len1 by (simp add: v fillna_values fillna_frame del: positions.simps)
  qed
  from to_array_positions [OF 2 this] have "map fst (cells da2) = positions (map snd (dims da2))" .
  then show "map fst (cells data) = positions (map snd (dims data))"
    using assign_coords_cells [OF 3] assign_coords_Inr [OF 3] by simp
qed

text \<open>The three functions on the example inputs.\<close>

lemma global_example_run:
  "jhu_global_to_xarray global_example =
     Inr \<lparr>dims = [(''time'', 1), (''location'', 2)],
          coords =
            [(''country'', [''location''], [Str ''Italy'', Str ''China'']),
             (''lat'', [''location''], [Num 41, Num 30]),
             (''lon'', [''location''], [Num 12, Num 112]),
             (''time'', [''time''], [Date 18283]),
             (''location'', [''location''], [Str ''Italy'', Str ''China / Hubei''])],
          cells = [([0, 0], Num 0), ([0, 1], Num 17)]\<rparr>"
  unfolding global_example_def by code_simp

lemma usa_example_run:
  "jhu_usa_to_xarray usa_example =
     Inr \<lparr>dims = [(''time'', 2), (''location'', 1)],
          coords =
            [(''state'', [''location''], [Str ''Alabama'']),
             (''country'', [''location''], [Str ''US'']),
             (''lat'', [''location''], [Num 32]),
             (''lon'', [''location''], [Num (- 86)]),
             (''population'', [''location''], [Num 55869]),
             (''time'', [''time''], [Date 18283, Date 18284]),
             (''location'', [''location''], [Str ''US / Alabama / Autauga''])],
          cells = [([0, 0], Num 0), ([1, 0], Num 1)]\<rparr>"
  unfolding usa_example_def by code_simp

lemma istat_example_run:
  "map_sum id (\<lambda>(istat, data). (dims data, map fst (coords data), map_of (cells data) [0, 0, 0, 0],
      label data ''time'' 0, label data ''age_class'' 0, label data ''location'' 0,
      map group_key istat))
     (istat_to_xarray istat_example True) =
   Inr ([(''year'', 6), (''time'', 2), (''age_class'', 1), (''location'', 2)],
        [''time'', ''age_class'', ''location'', ''year'', ''region'', ''province''],
        Some (Num 0), Inr (Date 18262), Inr (Str ''50-59''), Inr (Str ''Bari''),
        [(18262, ''50-59'', ''Roma''), (18263, ''50-59'', ''Bari'')])"
  unfolding istat_example_def by code_simp

text \<open>
  Claim C1, as the code has it. Every array that \<^verbatim>\<open>jhu_global_to_xarray\<close> or
  \<^verbatim>\<open>istat_to_xarray\<close> returns passes \<^verbatim>\<open>cdm_check\<close>: its dimension names are in \<open>CDM_DIMS\<close> and
  its coordinate names in \<open>CDM_COORDS\<close>. Every array that \<^verbatim>\<open>jhu_usa_to_xarray\<close> returns has
  its dimension names in \<open>CDM_DIMS\<close> and its coordinate names in \<open>CDM_COORDS\<close> or equal to
  \<^verbatim>\<open>population\<close>, which the function makes a coordinate and keeps; \<^verbatim>\<open>cdm_check\<close> raises the
  unsupported-coordinates error for \<^verbatim>\<open>population\<close> on it.
\<close>

theorem builders_cdm_closure:
  "(jhu_global_to_xarray df = Inr da \<longrightarrow> cdm_check da = Inr ())
   \<and> (istat_to_xarray path drop_rows = Inr (istat, data) \<longrightarrow> cdm_check data = Inr ())
   \<and> (jhu_usa_to_xarray df = Inr da \<longrightarrow>
        set (map fst (dims da)) \<subseteq> CDM_DIMS
        \<and> set (map fst (coords da)) \<subseteq> CDM_COORDS \<union> {''population''}
        \<and> cdm_check da = Inl (Unsupported_coords {''population''}))"
proof (intro conjI impI)
  assume "jhu_global_to_xarray df = Inr da"
  then show "cdm_check da = Inr ()"
    by (rule jhu_global_cdm)
next
  assume run: "istat_to_xarray path drop_rows = Inr (istat, data)"
  have d: "set (map fst (dims data)) = {''year'', ''time'', ''age_class'', ''location''}"
    using istat_names(1) [OF run] by (simp only: list.set)
  have c: "set (map fst (coords data)) =
      {''region'', ''province'', ''year'', ''time'', ''age_class'', ''location''}"
    by (rule istat_names(2) [OF run])
  show "cdm_check data = Inr ()"
    unfolding cdm_check_def Let_def d c by (simp add: CDM_DIMS_def CDM_COORDS_def)
next
  assume run: "jhu_usa_to_xarray df = Inr da"
  show "set (map fst (dims da)) \<subseteq> CDM_DIMS"
    using jhu_usa_names(1) [OF run] by (simp add: CDM_DIMS_def)
  show "set (map fst (coords da)) \<subseteq> CDM_COORDS \<union> {''population''}"
    unfolding jhu_usa_names(2) [OF run] by (simp add: CDM_DIMS_def CDM_COORDS_def)
  show "cdm_check da = Inl (Unsupported_coords {''population''})"
    using run by (rule jhu_usa_cdm)
qed

text \<open>The three builders return on the example inputs, with the outcomes of the theorem.\<close>

theorem builders_cdm_closure_witness:
  "(\<exists>da. jhu_global_to_xarray global_example = Inr da \<and> cdm_check da = Inr ())
   \<and> (\<exists>istat data. istat_to_xarray istat_example True = Inr (istat, data) \<and> cdm_check data = Inr ())
   \<and> (\<exists>da. jhu_usa_to_xarray usa_example = Inr da
         \<and> set (map fst (dims da)) \<subseteq> CDM_DIMS
         \<and> set (map fst (coords da)) \<subseteq> CDM_COORDS \<union> {''population''}
         \<and> cdm_check da = Inl (Unsupported_coords {''population''}))"
proof -
  obtain istat data where istat: "istat_to_xarray istat_example True = Inr (istat, data)"
    using istat_to_xarray_returns by blast
  show ?thesis
    using builders_cdm_closure [of global_example _ istat_example True istat data]
      builders_cdm_closure [of usa_example _ istat_example True istat data]
      global_example_run usa_example_run istat
    by blast
qed

text \<open>
  Claim C1 as stated fails for \<^verbatim>\<open>jhu_usa_to_xarray\<close>: on the example table it returns an
  array with the coordinate \<^verbatim>\<open>population\<close>, and \<^verbatim>\<open>cdm_check\<close> raises on that array.
\<close>

theorem jhu_usa_fails_cdm_check:
  "jhu_usa_to_xarray usa_example =
     Inr \<lparr>dims = [(''time'', 2), (''location'', 1)],
          coords =
            [(''state'', [''location''], [Str ''Alabama'']),
             (''country'', [''location''], [Str ''US'']),
             (''lat'', [''location''], [Num 32]),
             (''lon'', [''location''], [Num (- 86)]),
             (''population'', [''location''], [Num 55869]),
             (''time'', [''time''], [Date 18283, Date 18284]),
             (''location'', [''location''], [Str ''US / Alabama / Autauga''])],
          cells = [([0, 0], Num 0), ([1, 0], Num 1)]\<rparr>
   \<and> cdm_check
        \<lparr>dims = [(''time'', 2), (''location'', 1)],
          coords =
            [(''state'', [''location''], [Str ''Alabama'']),
             (''country'', [''location''], [Str ''US'']),
             (''lat'', [''location''], [Num 32]),
             (''lon'', [''location''], [Num (- 86)]),
             (''population'', [''location''], [Num 55869]),
             (''time'', [''time''], [Date 18283, Date 18284]),
             (''location'', [''location''], [Str ''US / Alabama / Autauga''])],
          cells = [([0, 0], Num 0), ([1, 0], Num 1)]\<rparr>
       = Inl (Unsupported_coords {''population''})
   \<and> \<not> {''population''} \<subseteq> CDM_COORDS"
  using usa_example_run by (auto simp: cdm_check_def CDM_DIMS_def CDM_COORDS_def Let_def)

text \<open>
  Claim C10. \<^verbatim>\<open>istat_to_xarray\<close> returns on every table. The array it returns has one cell
  for every tuple of positions along (year, time, age_class, location); no cell holds
  \<^verbatim>\<open>nan\<close>; and a cell whose time, age class and location are together those of no row of
  the returned table holds 0.
\<close>

theorem istat_absent_cells_are_zero:
  "(\<exists>data. istat_to_xarray path drop_rows = Inr (istat_to_pandas path drop_rows, data))
   \<and> (istat_to_xarray path drop_rows = Inr (istat, data) \<longrightarrow>
        map fst (dims data) = [''year'', ''time'', ''age_class'', ''location'']
        \<and> map fst (cells data) = positions (map snd (dims data))
        \<and> (\<forall>(q, v) \<in> set (cells data).
              v \<noteq> NaN
              \<and> ((\<forall>r \<in> set istat.
                     label data ''time'' (q ! 1) \<noteq> Inr (Date (time r))
                     \<or> label data ''age_class'' (q ! 2) \<noteq> Inr (Str (age_class r))
                     \<or> label data ''location'' (q ! 3) \<noteq> Inr (Str (NOME_COMUNE r)))
                   \<longrightarrow> v = Num 0)))"
  using istat_to_xarray_returns istat_names(1) istat_names(3) istat_cells_filled
  by blast

text \<open>
  On the example rows the array has the days 2020-01-01 and 2020-01-02 and the
  municipalities Bari and Roma. The only row of Bari is on the second day, so the cell of
  2015 for the first day and Bari belongs to no row, and it holds 0.
\<close>

theorem istat_absent_cells_are_zero_witness:
  "\<exists>istat data.
     istat_to_xarray istat_example True = Inr (istat, data)
     \<and> map group_key istat = [(18262, ''50-59'', ''Roma''), (18263, ''50-59'', ''Bari'')]
     \<and> label data ''time'' 0 = Inr (Date 18262)
     \<and> label data ''age_class'' 0 = Inr (Str ''50-59'')
     \<and> label data ''location'' 0 = Inr (Str ''Bari'')
     \<and> map_of (cells data) [0, 0, 0, 0] = Some (Num 0)"
proof -
  from istat_absent_cells_are_zero [of istat_example True]
  obtain data where "istat_to_xarray istat_example True = Inr (istat_to_pandas istat_example True, data)"
    by blast
  with istat_example_run show ?thesis
    by (intro exI [of _ "istat_to_pandas istat_example True"] exI [of _ data]) simp
qed

section \<open>Properties of the grid-to-point resampler\<close>

lemma mapM_list_all2: "mapM f xs = Inr ys \<Longrightarrow> list_all2 (\<lambda>x y. f x = Inr y) xs ys"
proof (induction xs arbitrary: ys)
  case Nil
  then show ?case by simp
next
  case (Cons x xs)
  from Cons.prems obtain y ys' where "f x = Inr y" "mapM f xs = Inr ys'" "ys = y # ys'"
    by (auto simp: bind_Inr_iff)
  with Cons.IH show ?case by simp
qed

lemma mapM_length: "mapM f xs = Inr ys \<Longrightarrow> length ys = length xs"
  by (drule mapM_list_all2) (simp add: list_all2_lengthD)

lemma mapM_nth: "mapM f xs = Inr ys \<Longrightarrow> i < length ys \<Longrightarrow> f (xs ! i) = Inr (ys ! i)"
  by (drule mapM_list_all2) (auto dest: list_all2_nthD2)

lemma py_zip_nth:
  "i < length (py_zip xss) \<Longrightarrow> py_zip xss ! i = map (\<lambda>xs. xs ! i) xss \<and> (\<forall>xs \<in> set xss. i < length xs)"
  by (induction xss arbitrary: i rule: py_zip.induct) (auto simp: nth_zip case_prod_beta)

lemma py_zip_length:
  "xss \<noteq> [] \<Longrightarrow> \<forall>xs \<in> set xss. length xs = n \<Longrightarrow> length (py_zip xss) = n"
  by (induction xss rule: py_zip.induct) auto


lemma interp_coord_Inr:
  assumes "bind (observed_values observed d) (\<lambda>vs.
             if d = ''lon'' then bind (mapM mod360 vs) (\<lambda>ws. Inr (d, ws)) else Inr (d, vs)) = Inr c"
  shows "fst c = d \<and> (\<exists>vs. observed_values observed d = Inr vs \<and> length (snd c) = length vs
        \<and> (if d = ''lon'' then mapM mod360 vs = Inr (snd c) else snd c = vs))"
proof -
  from assms obtain vs where vs: "observed_values observed d = Inr vs"
    and c: "(if d = ''lon'' then bind (mapM mod360 vs) (\<lambda>ws. Inr (d, ws)) else Inr (d, vs)) = Inr c"
    unfolding bind_Inr_iff by blast
  show ?thesis
  proof (cases "d = ''lon''")
    case True
    with c have "bind (mapM mod360 vs) (\<lambda>ws. Inr (d, ws)) = Inr c"
      by (simp only: if_True simp_thms)
    then obtain ws where "mapM mod360 vs = Inr ws" "c = (d, ws)"
      unfolding bind_Inr_iff by blast
    with vs True mapM_length [of mod360 vs ws] show ?thesis
      by simp
  next
    case False
    with c have "c = (d, vs)"
      by (simp only: if_False simp_thms sum.inject)
    with vs False show ?thesis
      by simp
  qed
qed

lemma interp_coords_Inr:
  assumes "interp_coords gridded observed = Inr cs"
  shows "map fst cs = interp_dims gridded observed"
    and "(d, ws) \<in> set cs \<Longrightarrow>
      \<exists>vs. observed_values observed d = Inr vs \<and> length ws = length vs
        \<and> (if d = ''lon'' then mapM mod360 vs = Inr ws else ws = vs)"
proof -
  let ?F = "\<lambda>d. bind (observed_values observed d) (\<lambda>vs.
             if d = ''lon'' then bind (mapM mod360 vs) (\<lambda>ws. Inr (d, ws)) else Inr (d, vs))"
  from assms have all2: "list_all2 (\<lambda>d c. ?F d = Inr c) (interp_dims gridded observed) cs"
    unfolding interp_coords_def by (rule mapM_list_all2)
  then have "list_all2 (\<lambda>d c. fst c = d) (interp_dims gridded observed) cs"
    by (rule list_all2_mono) (rule interp_coord_Inr [THEN conjunct1])
  then show "map fst cs = interp_dims gridded observed"
    by (induction rule: list_all2_induct) simp_all
  assume "(d, ws) \<in> set cs"
  then obtain k where k: "k < length cs" "cs ! k = (d, ws)"
    by (auto simp: in_set_conv_nth)
  with all2 have "?F (interp_dims gridded observed ! k) = Inr (d, ws)"
    by (auto dest: list_all2_nthD2)
  from interp_coord_Inr [OF this]
  show "\<exists>vs. observed_values observed d = Inr vs \<and> length ws = length vs
        \<and> (if d = ''lon'' then mapM mod360 vs = Inr ws else ws = vs)"
    by (simp only: fst_conv snd_conv)
qed

lemma selections_entries:
  assumes "selections gridded observed = Inr sels" and "i < length sels" and "(d, v) \<in> set (sels ! i)"
  shows "d \<in> set (interp_dims gridded observed)
    \<and> (\<exists>vs. observed_values observed d = Inr vs \<and> i < length vs
          \<and> (if d = ''lon'' then mod360 (vs ! i) = Inr v else v = vs ! i))"
proof -
  from assms(1) obtain cs where cs: "interp_coords gridded observed = Inr cs"
    and sels: "sels = map (\<lambda>coord_values. zip (map fst cs) coord_values) (py_zip (map snd cs))"
    by (auto simp: selections_def bind_Inr_iff)
  from assms(2) have i: "i < length (py_zip (map snd cs))"
    by (simp add: sels)
  note nth = py_zip_nth [OF i]
  have "sels ! i = zip (map fst cs) (map (\<lambda>xs. xs ! i) (map snd cs))"
    using i nth by (simp add: sels)
  also have "\<dots> = map (\<lambda>c. (fst c, snd c ! i)) cs"
    by (simp add: zip_map_map zip_same_conv_map)
  finally have "(d, v) \<in> set (map (\<lambda>c. (fst c, snd c ! i)) cs)"
    using assms(3) by simp
  then obtain ws where ws: "(d, ws) \<in> set cs" and v: "v = ws ! i"
    by auto
  from ws nth have len: "i < length ws"
    by force
  from interp_coords_Inr(2) [OF cs ws] obtain vs
    where vs: "observed_values observed d = Inr vs" "length ws = length vs"
      and rel: "if d = ''lon'' then mapM mod360 vs = Inr ws else ws = vs"
    by blast
  have "d \<in> set (map fst cs)"
    using ws by force
  then have "d \<in> set (interp_dims gridded observed)"
    by (simp only: interp_coords_Inr(1) [OF cs])
  moreover have "if d = ''lon'' then mod360 (vs ! i) = Inr v else v = vs ! i"
  proof (cases "d = ''lon''")
    case True
    with rel have "mapM mod360 vs = Inr ws"
      by simp
    from mapM_nth [OF this len] True v show ?thesis
      by simp
  next
    case False
    with rel v show ?thesis
      by simp
  qed
  moreover have "i < length vs"
    using len vs(2) by simp
  ultimately show ?thesis
    using vs(1) by blast
qed


lemma concat_da_Inr:
  assumes "concat_da objs d = Inr data"
  shows "objs \<noteq> []" and "dims data = (d, length objs) # dims (hd objs)"
  using assms by (auto simp: concat_da_def split: list.splits if_splits)

lemma assign_index_Inr:
  assumes "assign_coords [(name, d, vs)] da = Inr da'"
  shows "map_of (dims da) d = Some (length vs)" and "dims da' = dims da"
    and "map_of (coords da') name = Some ([d], vs)" and "cells da' = cells da"
  using assms
  by (auto simp: assign_coords_def assign_coord_def update_conv' split: if_splits)

text \<open>
  Claim C8. When \<^verbatim>\<open>interp_on_observations\<close> returns, and the coordinate arrays of
  \<open>observed\<close> for the shared dimensions all have length N, then N is positive, the first
  dimension of the result is \<open>index\<close> with exactly N entries, and the coordinate \<open>index\<close> of
  the result holds the N values of \<^verbatim>\<open>observed[index]\<close>, as they are in \<open>observed\<close>.
\<close>

theorem interp_index_axis:
  assumes "interp_on_observations gridded observed index = Inr result"
    and "\<forall>d \<in> set (interp_dims gridded observed).
           \<exists>vs. observed_values observed d = Inr vs \<and> length vs = N"
  shows "0 < N \<and> hd (dims result) = (index, N) \<and> map_of (dims result) index = Some N
    \<and> (\<exists>ds ids. map_of observed index = Some (ds, ids) \<and> length ids = N
          \<and> map_of (coords result) index = Some ([index], ids))"
proof -
  from assms(1) obtain sels slices data
    where sels: "selections gridded observed = Inr sels"
      and slices: "mapM (sel_nearest gridded) sels = Inr slices"
      and data: "concat_da slices index = Inr data"
      and last: "(case map_of observed index of
                    None \<Rightarrow> Inl KeyError
                  | Some (ds, vs) \<Rightarrow>
                      if length ds \<noteq> 1 then Inl ValueError
                      else assign_coords [(index, index, vs)] data) = Inr result"
    unfolding interp_on_observations_def bind_Inr_iff by blast
  from last obtain ds ids
    where ids: "map_of observed index = Some (ds, ids)"
      and result: "assign_coords [(index, index, ids)] data = Inr result"
    by (cases "map_of observed index") (auto split: if_splits)
  from sels obtain cs where cs: "interp_coords gridded observed = Inr cs"
    and sels_eq: "sels = map (\<lambda>coord_values. zip (map fst cs) coord_values) (py_zip (map snd cs))"
    by (auto simp: selections_def bind_Inr_iff)
  have len_slices: "length slices = length (py_zip (map snd cs))"
    using mapM_length [OF slices] by (simp add: sels_eq)
  have nonempty: "slices \<noteq> []"
    by (rule concat_da_Inr(1) [OF data])
  have "map snd cs \<noteq> []"
  proof
    assume "map snd cs = []"
    then have "py_zip (map snd cs) = []"
      by simp
    with len_slices nonempty show False
      by simp
  qed
  moreover have "\<forall>ws \<in> set (map snd cs). length ws = N"
  proof
    fix ws assume "ws \<in> set (map snd cs)"
    then obtain d where d: "(d, ws) \<in> set cs"
      by auto
    then have "d \<in> set (map fst cs)"
      by force
    then have "d \<in> set (interp_dims gridded observed)"
      by (simp only: interp_coords_Inr(1) [OF cs])
    with assms(2) obtain vs' where vs': "observed_values observed d = Inr vs'" "length vs' = N"
      by blast
    from interp_coords_Inr(2) [OF cs d] obtain vs
      where "observed_values observed d = Inr vs" "length ws = length vs"
      by blast
    with vs' show "length ws = N"
      by simp
  qed
  ultimately have "length (py_zip (map snd cs)) = N"
    by (rule py_zip_length)
  with len_slices have n: "length slices = N"
    by simp
  with nonempty have pos: "0 < N"
    by auto
  have dims_data: "dims data = (index, N) # dims (hd slices)"
    using concat_da_Inr(2) [OF data] n by simp
  note a = assign_index_Inr [OF result]
  have dims_result: "dims result = (index, N) # dims (hd slices)"
    using a(2) dims_data by simp
  have "length ids = N"
    using a(1) dims_data by simp
  with pos dims_result ids a(3) show ?thesis
    by simp
qed

subsection \<open>The floating-point remainder \<^verbatim>\<open>% 360.0\<close>\<close>

text \<open>
  The exponent of a number below 360 is at most 8, so that its rounding is a multiple of
  \<^verbatim>\<open>2**-44\<close> and, 360 being one, cannot exceed 360.
\<close>

lemma pow2_pos: "0 < pow2 e"
  by (simp add: pow2_def)

lemma exponent_up_le: "x < 2 ^ Suc k \<Longrightarrow> exponent_up n x \<le> int k"
proof (induction n arbitrary: x k)
  case 0
  then show ?case by simp
next
  case (Suc n)
  show ?case
  proof (cases "x < 2")
    case True
    then show ?thesis by simp
  next
    case False
    with Suc.prems obtain j where k: "k = Suc j"
      by (cases k) auto
    with Suc.prems have "x / 2 < 2 ^ Suc j"
      by simp
    then have "exponent_up n (x / 2) \<le> int j"
      by (rule Suc.IH)
    with False k show ?thesis
      by simp
  qed
qed

lemma exponent_down_le: "exponent_down n x \<le> 0"
proof (induction n arbitrary: x)
  case 0
  then show ?case by simp
next
  case (Suc n)
  from Suc.IH [of "2 * x"] show ?case
    by simp
qed

lemma exponent_le_8:
  assumes "z < 360"
  shows "exponent z \<le> 8"
proof (cases "1 \<le> z")
  case True
  from assms have "z < 2 ^ Suc 8"
    by simp
  then have "exponent_up 1023 z \<le> int 8"
    by (rule exponent_up_le)
  with True show ?thesis
    by (simp add: exponent_def)
next
  case False
  with exponent_down_le [of 1022 z] show ?thesis
    by (simp add: exponent_def)
qed

lemma round_half_even_bounds:
  assumes "0 \<le> r" and "r \<le> of_int K"
  shows "0 \<le> round_half_even r" and "round_half_even r \<le> K"
proof -
  have f0: "0 \<le> \<lfloor>r\<rfloor>"
    using assms(1) by simp
  then show "0 \<le> round_half_even r"
    by (simp add: round_half_even_def)
  have fK: "\<lfloor>r\<rfloor> \<le> K"
    using assms(2) by (simp add: floor_le_iff)
  show "round_half_even r \<le> K"
  proof (cases "\<lfloor>r\<rfloor> = K")
    case True
    with assms(2) have "r = of_int \<lfloor>r\<rfloor>"
      using of_int_floor_le [of r] by simp
    then have "r - of_int \<lfloor>r\<rfloor> < 1 / 2"
      by simp
    with True show ?thesis
      by (simp add: round_half_even_def)
  next
    case False
    with fK have "\<lfloor>r\<rfloor> + 1 \<le> K"
      by simp
    with fK show ?thesis
      by (simp add: round_half_even_def)
  qed
qed

lemma round_double_range:
  assumes "0 < z" and "z < 360"
  shows "0 \<le> round_double z" and "round_double z \<le> 360"
proof -
  define n where "n = nat (52 - exponent z)"
  have "exponent z - 52 < 0"
    using exponent_le_8 [OF assms(2)] by simp
  then have q: "pow2 (exponent z - 52) = 1 / 2 ^ n"
    by (simp add: pow2_def n_def)
  have abs: "\<bar>z\<bar> = z"
    using assms(1) by simp
  have rd: "round_double z = of_int (round_half_even (z * 2 ^ n)) / 2 ^ n"
    using assms(1) by (simp add: round_double_def abs q)
  have "0 \<le> z * 2 ^ n"
    using assms(1) by simp
  moreover have "z * 2 ^ n \<le> of_int (360 * 2 ^ n)"
    using assms(2) by simp
  ultimately have b: "0 \<le> round_half_even (z * 2 ^ n)" "round_half_even (z * 2 ^ n) \<le> 360 * 2 ^ n"
    by (rule round_half_even_bounds)+
  from b(1) show "0 \<le> round_double z"
    by (simp add: rd)
  from b(2) have "(of_int (round_half_even (z * 2 ^ n)) :: real) \<le> of_int (360 * 2 ^ n)"
    by (simp only: of_int_le_iff)
  then show "round_double z \<le> 360"
    by (simp add: rd field_simps)
qed

lemma fmod360_nonneg:
  assumes "0 \<le> x"
  shows "fmod360 x = x - 360 * of_int \<lfloor>x / 360\<rfloor>" and "0 \<le> fmod360 x" and "fmod360 x < 360"
proof -
  show eq: "fmod360 x = x - 360 * of_int \<lfloor>x / 360\<rfloor>"
    using assms by (simp add: fmod360_def)
  have "360 * of_int \<lfloor>x / 360\<rfloor> \<le> x" "x < 360 * of_int \<lfloor>x / 360\<rfloor> + 360"
    by linarith+
  then show "0 \<le> fmod360 x" "fmod360 x < 360"
    unfolding eq by linarith+
qed

lemma fmod360_neg:
  assumes "x < 0"
  shows "- 360 < fmod360 x" and "fmod360 x \<le> 0"
proof -
  have eq: "fmod360 x = x - 360 * of_int \<lceil>x / 360\<rceil>"
    using assms by (simp add: fmod360_def)
  have "x \<le> 360 * of_int \<lceil>x / 360\<rceil>" "360 * of_int \<lceil>x / 360\<rceil> < x + 360"
    by linarith+
  then show "- 360 < fmod360 x" "fmod360 x \<le> 0"
    unfolding eq by linarith+
qed

lemma float_mod360_range: "0 \<le> float_mod360 x \<and> float_mod360 x \<le> 360"
proof (cases "fmod360 x < 0")
  case True
  then have "x < 0"
    using fmod360_nonneg(2) [of x] by (cases "0 \<le> x") auto
  then have "0 < fmod360 x + 360" "fmod360 x + 360 < 360"
    using fmod360_neg(1) [of x] True by simp_all
  then have "0 \<le> round_double (fmod360 x + 360) \<and> round_double (fmod360 x + 360) \<le> 360"
    using round_double_range by blast
  with True show ?thesis
    by (simp add: float_mod360_def)
next
  case False
  have "fmod360 x < 360"
  proof (cases "0 \<le> x")
    case True
    then show ?thesis by (rule fmod360_nonneg(3))
  next
    case False
    then have "fmod360 x \<le> 0"
      using fmod360_neg(2) [of x] by simp
    then show ?thesis by simp
  qed
  with False show ?thesis
    by (simp add: float_mod360_def)
qed

lemma float_mod360_nonneg:
  assumes "0 \<le> x"
  shows "float_mod360 x = x - 360 * of_int \<lfloor>x / 360\<rfloor>" and "float_mod360 x < 360"
  using fmod360_nonneg [OF assms] by (simp_all add: float_mod360_def)


text \<open>A longitude of -10 is looked up at 350.\<close>

lemma float_mod360_minus_10: "float_mod360 (- 10) = 350"
  by code_simp

text \<open>
  Claim C9, as the code has it. When \<^verbatim>\<open>interp_on_observations\<close> returns, the selections
  that were passed to the nearest-value lookup are these: for the i-th observation point and
  each shared dimension, the i-th observed value of that dimension, unmodified, except for
  \<^verbatim>\<open>lon\<close>, where it is the floating-point remainder \<^verbatim>\<open>% 360.0\<close> of the observed value: a
  number y with 0 \<le> y \<le> 360, which for an observed longitude x \<ge> 0 is x - 360 \<lfloor>x / 360\<rfloor>
  exactly and is below 360. A longitude of -10 gives 350.
\<close>

theorem lon_normalized_before_selection:
  assumes "interp_on_observations gridded observed index = Inr result"
  shows "\<exists>sels slices.
           selections gridded observed = Inr sels
           \<and> mapM (sel_nearest gridded) sels = Inr slices
           \<and> (\<forall>i < length sels. \<forall>(d, v) \<in> set (sels ! i).
                 d \<in> set (interp_dims gridded observed)
                 \<and> (\<exists>vs. observed_values observed d = Inr vs \<and> i < length vs
                       \<and> (if d = ''lon''
                           then mod360 (vs ! i) = Inr v
                             \<and> (\<forall>x. vs ! i = Num x \<longrightarrow>
                                   v = Num (float_mod360 x)
                                   \<and> 0 \<le> float_mod360 x \<and> float_mod360 x \<le> 360
                                   \<and> (0 \<le> x \<longrightarrow>
                                        float_mod360 x = x - 360 * of_int \<lfloor>x / 360\<rfloor>
                                        \<and> float_mod360 x < 360))
                           else v = vs ! i)))
         \<and> float_mod360 (- 10) = 350"
proof -
  from assms obtain sels slices
    where sels: "selections gridded observed = Inr sels"
      and slices: "mapM (sel_nearest gridded) sels = Inr slices"
    unfolding interp_on_observations_def bind_Inr_iff by blast
  have "d \<in> set (interp_dims gridded observed)
      \<and> (\<exists>vs. observed_values observed d = Inr vs \<and> i < length vs
            \<and> (if d = ''lon''
                then mod360 (vs ! i) = Inr v
                  \<and> (\<forall>x. vs ! i = Num x \<longrightarrow>
                        v = Num (float_mod360 x)
                        \<and> 0 \<le> float_mod360 x \<and> float_mod360 x \<le> 360
                        \<and> (0 \<le> x \<longrightarrow>
                             float_mod360 x = x - 360 * of_int \<lfloor>x / 360\<rfloor>
                             \<and> float_mod360 x < 360))
                else v = vs ! i))"
    if "i < length sels" "(d, v) \<in> set (sels ! i)" for i d v
  proof -
    from selections_entries [OF sels that] obtain vs
      where d: "d \<in> set (interp_dims gridded observed)"
        and vs: "observed_values observed d = Inr vs" "i < length vs"
        and rel: "if d = ''lon'' then mod360 (vs ! i) = Inr v else v = vs ! i"
      by blast
    show ?thesis
    proof (cases "d = ''lon''")
      case True
      with rel have m: "mod360 (vs ! i) = Inr v"
        by (simp only: if_True simp_thms)
      have range: "v = Num (float_mod360 x)
          \<and> 0 \<le> float_mod360 x \<and> float_mod360 x \<le> 360
          \<and> (0 \<le> x \<longrightarrow> float_mod360 x = x - 360 * of_int \<lfloor>x / 360\<rfloor> \<and> float_mod360 x < 360)"
        if "vs ! i = Num x" for x
      proof -
        from m that have "v = Num (float_mod360 x)"
          by (simp add: mod360_def)
        with float_mod360_range [of x] float_mod360_nonneg [of x] show ?thesis
          by blast
      qed
      show ?thesis
        unfolding if_P [OF True] using d vs m range by blast
    next
      case False
      with rel have "v = vs ! i"
        by (simp only: if_False simp_thms)
      then show ?thesis
        unfolding if_not_P [OF False] using d vs by blast
    qed
  qed
  with sels slices float_mod360_minus_10 show ?thesis
    by blast
qed

text \<open>The resampler on the example grid and points, and two selections on the grid.\<close>

lemma interp_example_run:
  "interp_on_observations grid_example observed_example ''location'' =
     Inr \<lparr>dims = [(''location'', 2)],
          coords = [(''lat'', [], [Num 40]),
                    (''lon'', [''location''], [Num 0, Num 270]),
                    (''location'', [''location''], [Str ''Roma'', Str ''Lisboa''])],
          cells = [([0], Num 0), ([1], Num 3)]\<rparr>"
  unfolding grid_example_def observed_example_def by code_simp

lemma selections_example_run:
  "selections grid_example observed_example =
     Inr [[(''lat'', Num 42), (''lon'', Num 12)], [(''lat'', Num 39), (''lon'', Num 350)]]"
  unfolding grid_example_def observed_example_def by code_simp

lemma sel_example_run:
  "sel_nearest grid_example [(''lat'', Num 39), (''lon'', Num (- 10))] =
     Inr \<lparr>dims = [], coords = [(''lat'', [], [Num 40]), (''lon'', [], [Num 0])],
          cells = [([], Num 0)]\<rparr>"
  "sel_nearest grid_example [(''lat'', Num 39), (''lon'', Num 350)] =
     Inr \<lparr>dims = [], coords = [(''lat'', [], [Num 40]), (''lon'', [], [Num 270])],
          cells = [([], Num 3)]\<rparr>"
  unfolding grid_example_def by code_simp+

text \<open>With no observation point there is nothing to concatenate, and the call raises.\<close>

lemma interp_no_points:
  "interp_on_observations grid_example
     [(''location'', [''location''], []), (''lat'', [''location''], []), (''lon'', [''location''], [])]
     ''location'' = Inl ValueError"
  unfolding grid_example_def by code_simp

text \<open>
  The example of claim C8: two observation points give an axis \<^verbatim>\<open>location\<close> of two entries
  that carries the names of the points, as \<open>observed\<close> has them.
\<close>

theorem interp_index_axis_witness:
  "interp_on_observations grid_example observed_example ''location'' =
     Inr \<lparr>dims = [(''location'', 2)],
          coords = [(''lat'', [], [Num 40]),
                    (''lon'', [''location''], [Num 0, Num 270]),
                    (''location'', [''location''], [Str ''Roma'', Str ''Lisboa''])],
          cells = [([0], Num 0), ([1], Num 3)]\<rparr>
   \<and> interp_dims grid_example observed_example = [''lat'', ''lon'']
   \<and> observed_values observed_example ''lat'' = Inr [Num 42, Num 39]
   \<and> observed_values observed_example ''lon'' = Inr [Num 12, Num (- 10)]
   \<and> map_of observed_example ''location'' = Some ([''location''], [Str ''Roma'', Str ''Lisboa''])
   \<and> (\<exists>ds ids. map_of observed_example ''location'' = Some (ds, ids) \<and> length ids = 2
         \<and> map_of (coords \<lparr>dims = [(''location'', 2)],
                coords = [(''lat'', [], [Num 40]),
                          (''lon'', [''location''], [Num 0, Num 270]),
                          (''location'', [''location''], [Str ''Roma'', Str ''Lisboa''])],
                cells = [([0], Num 0), ([1], Num 3)]\<rparr>) ''location'' = Some ([''location''], ids))"
proof -
  have shared: "interp_dims grid_example observed_example = [''lat'', ''lon'']"
    by (simp add: interp_dims_def grid_example_def observed_example_def)
  have vals: "observed_values observed_example ''lat'' = Inr [Num 42, Num 39]"
    "observed_values observed_example ''lon'' = Inr [Num 12, Num (- 10)]"
    by (simp_all add: observed_values_def observed_example_def)
  have ids: "map_of observed_example ''location'' = Some ([''location''], [Str ''Roma'', Str ''Lisboa''])"
    by (simp add: observed_example_def)
  have "\<forall>d \<in> set (interp_dims grid_example observed_example).
      \<exists>vs. observed_values observed_example d = Inr vs \<and> length vs = 2"
    by (simp add: shared vals)
  from interp_index_axis [OF interp_example_run this] interp_example_run shared vals ids
  show ?thesis
    by simp
qed

text \<open>
  The example of claim C9: the second point, at longitude -10, is looked up at 350, and on
  the grid 0, 90, 180, 270 the nearest longitude to 350 is 270 (the cell that holds 3);
  looked up at -10 it would have been 0 (the cell that holds 0).
\<close>

theorem lon_normalized_before_selection_witness:
  "(\<exists>sels slices.
      selections grid_example observed_example = Inr sels
      \<and> mapM (sel_nearest grid_example) sels = Inr slices
      \<and> sels = [[(''lat'', Num 42), (''lon'', Num 12)], [(''lat'', Num 39), (''lon'', Num 350)]])
   \<and> float_mod360 (- 10) = 350
   \<and> float_mod360 12 = 12
   \<and> mod360 (Num (- 10)) = Inr (Num 350)
   \<and> map_sum id coords (sel_nearest grid_example [(''lat'', Num 39), (''lon'', Num 350)]) =
        Inr [(''lat'', [], [Num 40]), (''lon'', [], [Num 270])]
   \<and> map_sum id coords (sel_nearest grid_example [(''lat'', Num 39), (''lon'', Num (- 10))]) =
        Inr [(''lat'', [], [Num 40]), (''lon'', [], [Num 0])]
   \<and> map_sum id coords (interp_on_observations grid_example observed_example ''location'') =
        Inr [(''lat'', [], [Num 40]), (''lon'', [''location''], [Num 0, Num 270]),
             (''location'', [''location''], [Str ''Roma'', Str ''Lisboa''])]"
proof -
  from lon_normalized_before_selection [OF interp_example_run]
  obtain sels slices
    where "selections grid_example observed_example = Inr sels"
      and "mapM (sel_nearest grid_example) sels = Inr slices"
      and "float_mod360 (- 10) = 350"
    by blast
  moreover have "float_mod360 12 = 12"
    by code_simp
  moreover have "mod360 (Num (- 10)) = Inr (Num 350)"
    by code_simp
  ultimately show ?thesis
    using selections_example_run sel_example_run interp_example_run by simp
qed

text \<open>
  The remainder is not always below 360. The longitude \<^verbatim>\<open>-2**-70\<close> is a float64 number; its
  \<^verbatim>\<open>fmod\<close> by 360 is itself, negative, so 360 is added, and the sum \<^verbatim>\<open>360 - 2**-70\<close> rounds to
  360.0. The point is looked up at longitude 360, outside [0, 360), and on the grid
  0, 90, 180, 270 it gets the cell at longitude 270 although it lies next to longitude 0.
\<close>

theorem lon_remainder_reaches_360:
  "observed_values tiny_lon_example ''lon'' = Inr [Num (- (1 / 2 ^ 70))]
   \<and> is_double (- (1 / 2 ^ 70))
   \<and> fmod360 (- (1 / 2 ^ 70)) = - (1 / 2 ^ 70)
   \<and> round_double (360 - 1 / 2 ^ 70) = 360
   \<and> mod360 (Num (- (1 / 2 ^ 70))) = Inr (Num 360)
   \<and> \<not> (360 :: real) < 360
   \<and> selections grid_example tiny_lon_example = Inr [[(''lat'', Num 51), (''lon'', Num 360)]]
   \<and> interp_on_observations grid_example tiny_lon_example ''location'' =
        Inr \<lparr>dims = [(''location'', 1)],
             coords = [(''lat'', [], [Num 50]), (''lon'', [], [Num 270]),
                       (''location'', [''location''], [Str ''Greenwich''])],
             cells = [([0], Num 13)]\<rparr>"
  unfolding grid_example_def tiny_lon_example_def by code_simp

end
